theory Spec2Isabelle
  imports Complex_Main
begin

section \<open>Python values, exceptions and the HTTP transport\<close>

text \<open>
  The SDK handles whatever \<^verbatim>\<open>response.json()\<close> returns, and its dataclasses do not
  check the types of their fields. A value of type \<open>json\<close> is therefore any Python value
  that a decoded JSON reply can contain: \<open>JNull\<close> is Python's \<^verbatim>\<open>None\<close>, a dict is the
  list of its items (looked up with \<open>map_of\<close>), a float is the rational it denotes
  (NaN and the infinities are left out).
\<close>

datatype json =
    JNull
  | JBool bool
  | JInt int
  | JFloat rat
  | JStr string
  | JList "json list"
  | JObj "(string \<times> json) list"

text \<open>
  The exception classes of \<^verbatim>\<open>exceptions.py\<close>, those of the transport library
  (\<^verbatim>\<open>requests.RequestException\<close> and three of its subclasses) and the interpreter's own
  ones that the parsing code can raise; \<open>PyException\<close> is an exception whose class is
  Python's \<^verbatim>\<open>Exception\<close> itself, which the tests make a mocked transport raise.
\<close>

datatype exn_class =
    AgentPayError | APIError | ValidationError | WalletError | ServiceError
  | PaymentError | DisputeError | WebhookError | ExecutionError
  | RequestException | ConnectionError | Timeout | HTTPError
  | KeyError | TypeError | AttributeError | PyException

text \<open>
  A raised exception: its class and \<^verbatim>\<open>str(e)\<close>. For \<open>KeyError\<close> the string is the
  missing key; for \<open>TypeError\<close> and \<open>AttributeError\<close> it is a short description, not the
  interpreter's exact wording.
\<close>

datatype exn = Raised exn_class string

fun is_domain_error :: "exn_class \<Rightarrow> bool" where
  "is_domain_error AgentPayError = True"
| "is_domain_error APIError = True"
| "is_domain_error ValidationError = True"
| "is_domain_error WalletError = True"
| "is_domain_error ServiceError = True"
| "is_domain_error PaymentError = True"
| "is_domain_error DisputeError = True"
| "is_domain_error WebhookError = True"
| "is_domain_error ExecutionError = True"
| "is_domain_error _ = False"

fun is_RequestException :: "exn_class \<Rightarrow> bool" where
  "is_RequestException RequestException = True"
| "is_RequestException ConnectionError = True"
| "is_RequestException Timeout = True"
| "is_RequestException HTTPError = True"
| "is_RequestException _ = False"

text \<open>A computation that returns a value or raises: \<open>Inl\<close> is the raised exception.\<close>

type_synonym 'a result = "exn + 'a"

definition andThen :: "'a result \<Rightarrow> ('a \<Rightarrow> 'b result) \<Rightarrow> 'b result" where
  "andThen m f = (case m of Inl e \<Rightarrow> Inl e | Inr v \<Rightarrow> f v)"

text \<open>Python's truth value of a decoded JSON value (\<^verbatim>\<open>if x:\<close>, \<^verbatim>\<open>not x\<close>, \<^verbatim>\<open>x or y\<close>).\<close>

fun truthy :: "json \<Rightarrow> bool" where
  "truthy JNull = False"
| "truthy (JBool b) = b"
| "truthy (JInt i) = (i \<noteq> 0)"
| "truthy (JFloat r) = (r \<noteq> 0)"
| "truthy (JStr s) = (s \<noteq> [])"
| "truthy (JList xs) = (xs \<noteq> [])"
| "truthy (JObj kvs) = (kvs \<noteq> [])"

text \<open>\<^verbatim>\<open>data.get(k)\<close>: only a dict has the method.\<close>

fun py_get :: "json \<Rightarrow> string \<Rightarrow> json result" where
  "py_get (JObj kvs) k = Inr (case map_of kvs k of None \<Rightarrow> JNull | Some v \<Rightarrow> v)"
| "py_get _ k = Inl (Raised AttributeError ''get'')"

text \<open>\<^verbatim>\<open>data.get(k, d)\<close>.\<close>

fun py_get_default :: "json \<Rightarrow> string \<Rightarrow> json \<Rightarrow> json result" where
  "py_get_default (JObj kvs) k d = Inr (case map_of kvs k of None \<Rightarrow> d | Some v \<Rightarrow> v)"
| "py_get_default _ k d = Inl (Raised AttributeError ''get'')"

text \<open>
  \<^verbatim>\<open>data[k]\<close> with a string key: a dict without the key raises \<open>KeyError\<close>; a string or
  a list refuses a string index, and the other values are not subscriptable.
\<close>

fun py_index :: "json \<Rightarrow> string \<Rightarrow> json result" where
  "py_index (JObj kvs) k =
     (case map_of kvs k of None \<Rightarrow> Inl (Raised KeyError k) | Some v \<Rightarrow> Inr v)"
| "py_index _ k = Inl (Raised TypeError ''subscript'')"

text \<open>
  \<^verbatim>\<open>k in data\<close> with a string \<open>k\<close>: key membership in a dict, element membership in a
  list, substring test in a string; the other values are not containers.
\<close>

fun is_substring :: "string \<Rightarrow> string \<Rightarrow> bool" where
  "is_substring p [] = (p = [])"
| "is_substring p (c # cs) = (take (length p) (c # cs) = p \<or> is_substring p cs)"

fun py_contains :: "string \<Rightarrow> json \<Rightarrow> bool result" where
  "py_contains k (JObj kvs) = Inr (map_of kvs k \<noteq> None)"
| "py_contains k (JList xs) = Inr (JStr k \<in> set xs)"
| "py_contains k (JStr s) = Inr (is_substring k s)"
| "py_contains k _ = Inl (Raised TypeError ''not iterable'')"

text \<open>
  \<^verbatim>\<open>for d in data\<close>: the elements of a list, the keys of a dict, the one-character
  strings of a string; the other values are not iterable.
\<close>

fun py_iter :: "json \<Rightarrow> json list result" where
  "py_iter (JList xs) = Inr xs"
| "py_iter (JObj kvs) = Inr (map (\<lambda>kv. JStr (fst kv)) kvs)"
| "py_iter (JStr s) = Inr (map (\<lambda>c. JStr [c]) s)"
| "py_iter _ = Inl (Raised TypeError ''not iterable'')"

text \<open>
  A list comprehension \<^verbatim>\<open>[f(d) for d in xs]\<close> and its filtering form
  \<^verbatim>\<open>[d for d in xs if p(d)]\<close>, where \<open>f\<close> and \<open>p\<close> may raise: the elements are visited
  from left to right and the first exception ends the comprehension.
\<close>

fun map_result :: "('a \<Rightarrow> 'b result) \<Rightarrow> 'a list \<Rightarrow> 'b list result" where
  "map_result f [] = Inr []"
| "map_result f (x # xs) =
     andThen (f x) (\<lambda>y. andThen (map_result f xs) (\<lambda>ys. Inr (y # ys)))"

fun filter_result :: "('a \<Rightarrow> bool result) \<Rightarrow> 'a list \<Rightarrow> 'a list result" where
  "filter_result p [] = Inr []"
| "filter_result p (x # xs) =
     andThen (p x) (\<lambda>b. andThen (filter_result p xs) (\<lambda>ys. Inr (if b then x # ys else ys)))"

text \<open>
  \<^verbatim>\<open>str.upper()\<close>. Strings are lists of bytes (UTF-8). On a string of ASCII characters
  only, the letters \<open>a\<close> to \<open>z\<close> become \<open>A\<close> to \<open>Z\<close> and nothing else changes. On a
  string with a character outside ASCII the result follows the Unicode case mappings of
  the interpreter, which are not part of the repository: they are the parameter
  \<open>unicode_upper\<close>. (Python's mapping takes the long s, U+017F, to \<open>S\<close>, so the string made
  of \<open>b\<close>, long s and \<open>v\<close> is upper-cased to \<open>BSV\<close>.)
\<close>

definition upper_char :: "char \<Rightarrow> char" where
  "upper_char c =
     (let n = (of_char c :: nat) in if 97 \<le> n \<and> n \<le> 122 then char_of (n - 32) else c)"

definition is_ascii :: "string \<Rightarrow> bool" where
  "is_ascii s = list_all (\<lambda>c. (of_char c :: nat) < 128) s"

definition upper :: "(string \<Rightarrow> string) \<Rightarrow> string \<Rightarrow> string" where
  "upper unicode_upper s = (if is_ascii s then map upper_char s else unicode_upper s)"

text \<open>
  An HTTP request as the SDK hands it to \<^verbatim>\<open>requests\<close>: method, URL, query parameters
  (\<^verbatim>\<open>params=\<close>), JSON body (\<^verbatim>\<open>json=\<close>) and headers.
\<close>

record request =
  http_method :: string
  url :: string
  params :: "(string \<times> string) list"
  json_body :: "json option"
  headers :: "(string \<times> string) list"

text \<open>
  The transport stands for the three source lines
  \<^verbatim>\<open>response = requests.get(...); response.raise_for_status(); data = response.json()\<close>
  together with the remote platform: given the request, it raises or yields the decoded
  body. A call returns the requests it sent, in order, and its outcome.
\<close>

type_synonym transport = "request \<Rightarrow> json result"

type_synonym 'a call = "request list \<times> 'a result"

text \<open>
  \<^verbatim>\<open>try: ... except requests.RequestException as e: raise C(f"{prefix}{str(e)}") from e\<close>:
  an exception of any other class passes through.
\<close>

definition except_RequestException :: "exn_class \<Rightarrow> string \<Rightarrow> 'a result \<Rightarrow> 'a result" where
  "except_RequestException C prefix body =
     (case body of
        Inl (Raised c m) \<Rightarrow>
          if is_RequestException c then Inl (Raised C (prefix @ m)) else Inl (Raised c m)
      | Inr v \<Rightarrow> Inr v)"

text \<open>
  Each operation \<open>f\<close> is modelled by two constants: \<open>f_request\<close> is the request that
  the method builds from its arguments, and \<open>f\<close> is the call, which sends that request
  through the transport and handles the reply.
\<close>

text \<open>The two attributes every operation group is constructed with.\<close>

record operations =
  base_url :: string
  api_key :: "string option"

text \<open>\<^verbatim>\<open>if self.api_key:\<close> holds for a key that is neither \<^verbatim>\<open>None\<close> nor empty.\<close>

definition has_api_key :: "operations \<Rightarrow> bool" where
  "has_api_key self = (case api_key self of None \<Rightarrow> False | Some k \<Rightarrow> k \<noteq> [])"

section \<open>Typed records (types.py)\<close>

record AgentWallet =
  id_wallet :: json
  public_key_wallet :: json
  address_wallet :: json
  created_at_wallet :: json
  balance_wallet :: json
  balance_mnee_wallet :: json

record Service =
  id_service :: json
  agent_id_service :: json
  name_service :: json
  description_service :: json
  category_service :: json
  price_service :: json
  currency_service :: json
  endpoint_service :: json
  method_service :: json
  active_service :: json
  timeout_service :: json
  dispute_window_service :: json
  created_at_service :: json
  updated_at_service :: json
  input_schema_service :: json
  output_schema_service :: json

record Payment =
  id_payment :: json
  service_id_payment :: json
  buyer_wallet_id_payment :: json
  seller_wallet_id_payment :: json
  amount_payment :: json
  platform_fee_payment :: json
  currency_payment :: json
  status_payment :: json
  created_at_payment :: json
  dispute_status_payment :: json
  tx_id_payment :: json
  completed_at_payment :: json

record ExecutionReceipt =
  id_receipt :: json
  payment_id_receipt :: json
  service_id_receipt :: json
  input_hash_receipt :: json
  output_hash_receipt :: json
  timestamp_receipt :: json
  execution_time_ms_receipt :: json
  provider_signature_receipt :: json
  platform_signature_receipt :: json
  receipt_hash_receipt :: json
  blockchain_tx_id_receipt :: json
  blockchain_anchored_at_receipt :: json

record ExecutionResult =
  payment_id_result :: json
  service_id_result :: json
  output_result :: json
  execution_time_ms_result :: json
  status_result :: json
  receipt_result :: "ExecutionReceipt option"
  payment_result :: "Payment option"

record ReputationScore =
  agent_id_reputation :: json
  total_jobs_reputation :: json
  success_rate_reputation :: json
  avg_response_time_ms_reputation :: json
  total_earned_reputation :: json
  total_spent_reputation :: json
  rating_reputation :: json

record Dispute =
  id_dispute :: json
  payment_id_dispute :: json
  buyer_wallet_id_dispute :: json
  provider_wallet_id_dispute :: json
  reason_dispute :: json
  status_dispute :: json
  created_at_dispute :: json
  evidence_dispute :: json
  resolution_dispute :: json
  split_percent_dispute :: json
  resolved_at_dispute :: json

record Webhook =
  id_webhook :: json
  url_webhook :: json
  events_webhook :: json
  active_webhook :: json
  created_at_webhook :: json
  secret_webhook :: json

section \<open>Wallet operations (wallet.py)\<close>

definition wallet_get_headers :: "operations \<Rightarrow> (string \<times> string) list" where
  "wallet_get_headers self =
     [(''Content-Type'', ''application/json'')] @
     (if has_api_key self then [(''Authorization'', ''Bearer '' @ the (api_key self))] else [])"

definition create_wallet_request :: "operations \<Rightarrow> request" where
  "create_wallet_request self =
     \<lparr>http_method = ''POST'', url = base_url self @ ''/api/wallets'',
      params = [], json_body = None, headers = wallet_get_headers self\<rparr>"

definition create_wallet :: "operations \<Rightarrow> transport \<Rightarrow> AgentWallet call" where
  "create_wallet self t =
     (let req = create_wallet_request self
      in ([req],
          except_RequestException WalletError ''Failed to create wallet: ''
            (andThen (t req) (\<lambda>data.
             andThen (py_get data ''wallet'') (\<lambda>wallet_data.
               if \<not> truthy wallet_data
               then Inl (Raised WalletError ''Invalid response: missing wallet data'')
               else
                 andThen (py_index wallet_data ''id'') (\<lambda>v_id.
                 andThen (py_index wallet_data ''publicKey'') (\<lambda>v_public_key.
                 andThen (py_index wallet_data ''address'') (\<lambda>v_address.
                 andThen (py_index wallet_data ''createdAt'') (\<lambda>v_created_at.
                 andThen (py_get wallet_data ''balance'') (\<lambda>v_balance.
                 andThen (py_get wallet_data ''balanceMnee'') (\<lambda>v_balance_mnee.
                   Inr \<lparr>id_wallet = v_id, public_key_wallet = v_public_key,
                        address_wallet = v_address, created_at_wallet = v_created_at,
                        balance_wallet = v_balance,
                        balance_mnee_wallet = v_balance_mnee\<rparr>)))))))))))"

definition get_wallet_request :: "operations \<Rightarrow> string \<Rightarrow> request" where
  "get_wallet_request self wallet_id =
     \<lparr>http_method = ''GET'', url = base_url self @ ''/api/wallets/'' @ wallet_id,
      params = [], json_body = None, headers = wallet_get_headers self\<rparr>"

definition get_wallet :: "operations \<Rightarrow> transport \<Rightarrow> string \<Rightarrow> AgentWallet call" where
  "get_wallet self t wallet_id =
     (let req = get_wallet_request self wallet_id
      in ([req],
          except_RequestException WalletError ''Failed to get wallet: ''
            (andThen (t req) (\<lambda>data.
             andThen (py_get data ''wallet'') (\<lambda>wallet_data.
               if \<not> truthy wallet_data
               then Inl (Raised WalletError (''Wallet '' @ wallet_id @ '' not found''))
               else
                 andThen (py_index wallet_data ''id'') (\<lambda>v_id.
                 andThen (py_index wallet_data ''publicKey'') (\<lambda>v_public_key.
                 andThen (py_index wallet_data ''address'') (\<lambda>v_address.
                 andThen (py_index wallet_data ''createdAt'') (\<lambda>v_created_at.
                 andThen (py_get wallet_data ''balance'') (\<lambda>v_balance.
                 andThen (py_get wallet_data ''balanceMnee'') (\<lambda>v_balance_mnee.
                   Inr \<lparr>id_wallet = v_id, public_key_wallet = v_public_key,
                        address_wallet = v_address, created_at_wallet = v_created_at,
                        balance_wallet = v_balance,
                        balance_mnee_wallet = v_balance_mnee\<rparr>)))))))))))"

text \<open>
  \<^verbatim>\<open>wallet.balance or 0\<close> is the balance when it is truthy and the integer 0 otherwise.
\<close>

definition get_balance ::
  "(string \<Rightarrow> string) \<Rightarrow> operations \<Rightarrow> transport \<Rightarrow> string \<Rightarrow> string \<Rightarrow> json call" where
  "get_balance unicode_upper self t wallet_id currency =
     (case get_wallet self t wallet_id of (reqs, r) \<Rightarrow>
        (reqs,
         andThen r (\<lambda>wallet.
           if upper unicode_upper currency = ''BSV''
           then Inr (if truthy (balance_wallet wallet) then balance_wallet wallet else JInt 0)
           else if upper unicode_upper currency = ''MNEE''
           then Inr (if truthy (balance_mnee_wallet wallet)
                     then balance_mnee_wallet wallet else JInt 0)
           else Inl (Raised WalletError (''Invalid currency: '' @ currency)))))"

section \<open>Service operations (services.py)\<close>

text \<open>\<^verbatim>\<open>str(n)\<close> for an integer: its decimal digits, with a minus sign when negative.\<close>

function str_nat :: "nat \<Rightarrow> string" where
  "str_nat n =
     (if n < 10 then [char_of (48 + n)] else str_nat (n div 10) @ [char_of (48 + n mod 10)])"
  by pat_completeness auto
termination
  by (relation "measure (\<lambda>n. n)") auto

definition str_int :: "int \<Rightarrow> string" where
  "str_int i = (if i < 0 then CHR ''-'' # str_nat (nat (- i)) else str_nat (nat i))"

text \<open>\<^verbatim>\<open>if s:\<close> for an \<^verbatim>\<open>Optional[str]\<close> argument.\<close>

definition truthy_str :: "string option \<Rightarrow> bool" where
  "truthy_str s = (case s of None \<Rightarrow> False | Some v \<Rightarrow> v \<noteq> [])"

definition service_get_headers :: "operations \<Rightarrow> (string \<times> string) list" where
  "service_get_headers self =
     [(''Content-Type'', ''application/json'')] @
     (if has_api_key self then [(''Authorization'', ''Bearer '' @ the (api_key self))] else [])"

definition parse_service :: "json \<Rightarrow> Service result" where
  "parse_service data =
     andThen (py_index data ''id'') (\<lambda>v_id.
     andThen (py_index data ''agentId'') (\<lambda>v_agent_id.
     andThen (py_index data ''name'') (\<lambda>v_name.
     andThen (py_index data ''description'') (\<lambda>v_description.
     andThen (py_index data ''category'') (\<lambda>v_category.
     andThen (py_index data ''price'') (\<lambda>v_price.
     andThen (py_index data ''currency'') (\<lambda>v_currency.
     andThen (py_index data ''endpoint'') (\<lambda>v_endpoint.
     andThen (py_index data ''method'') (\<lambda>v_method.
     andThen (py_index data ''active'') (\<lambda>v_active.
     andThen (py_get_default data ''timeout'' (JInt 30)) (\<lambda>v_timeout.
     andThen (py_get_default data ''disputeWindow'' (JInt 30)) (\<lambda>v_dispute_window.
     andThen (py_index data ''createdAt'') (\<lambda>v_created_at.
     andThen (py_index data ''updatedAt'') (\<lambda>v_updated_at.
     andThen (py_get data ''inputSchema'') (\<lambda>v_input_schema.
     andThen (py_get data ''outputSchema'') (\<lambda>v_output_schema.
       Inr \<lparr>id_service = v_id, agent_id_service = v_agent_id, name_service = v_name,
            description_service = v_description, category_service = v_category,
            price_service = v_price, currency_service = v_currency,
            endpoint_service = v_endpoint, method_service = v_method,
            active_service = v_active, timeout_service = v_timeout,
            dispute_window_service = v_dispute_window, created_at_service = v_created_at,
            updated_at_service = v_updated_at, input_schema_service = v_input_schema,
            output_schema_service = v_output_schema\<rparr>))))))))))))))))"

text \<open>
  The arguments of \<^verbatim>\<open>register_service\<close> after \<open>self\<close>, in the order of the signature;
  the two schemas are \<open>JNull\<close> when not given. The first argument of the model is the
  parameter of \<open>upper\<close>.
\<close>

definition register_service_request ::
  "(string \<Rightarrow> string) \<Rightarrow> operations \<Rightarrow> string \<Rightarrow> string \<Rightarrow>
   string \<Rightarrow> int \<Rightarrow> string \<Rightarrow> string \<Rightarrow>
   string \<Rightarrow> string \<Rightarrow> int \<Rightarrow> int \<Rightarrow>
   json \<Rightarrow> json \<Rightarrow> request" where
  "register_service_request unicode_upper self agent_id name description price endpoint
     category currency method timeout dispute_window input_schema output_schema =
     (let payload =
            [(''agentId'', JStr agent_id), (''name'', JStr name),
             (''description'', JStr description), (''category'', JStr category),
             (''price'', JInt price), (''currency'', JStr (upper unicode_upper currency)),
             (''endpoint'', JStr endpoint), (''method'', JStr (upper unicode_upper method)),
             (''timeout'', JInt timeout), (''disputeWindow'', JInt dispute_window)] @
            (if truthy input_schema then [(''inputSchema'', input_schema)] else []) @
            (if truthy output_schema then [(''outputSchema'', output_schema)] else [])
      in \<lparr>http_method = ''POST'', url = base_url self @ ''/api/services'',
          params = [], json_body = Some (JObj payload),
          headers = service_get_headers self\<rparr>)"

definition register_service ::
  "(string \<Rightarrow> string) \<Rightarrow> operations \<Rightarrow> transport \<Rightarrow> string \<Rightarrow> string \<Rightarrow> string \<Rightarrow> int \<Rightarrow> string \<Rightarrow> string \<Rightarrow>
   string \<Rightarrow> string \<Rightarrow> int \<Rightarrow> int \<Rightarrow> json \<Rightarrow> json \<Rightarrow> Service call" where
  "register_service unicode_upper self t agent_id name description price endpoint category
     currency method timeout dispute_window input_schema output_schema =
     (let req = register_service_request unicode_upper self agent_id name description price endpoint
                  category currency method timeout dispute_window input_schema output_schema
      in ([req],
          except_RequestException ServiceError ''Failed to register service: ''
            (andThen (t req) (\<lambda>data.
             andThen (py_get data ''service'') (\<lambda>service_data.
               if \<not> truthy service_data
               then Inl (Raised ServiceError ''Invalid response: missing service data'')
               else parse_service service_data)))))"

text \<open>
  \<open>str_float\<close> stands for Python's \<^verbatim>\<open>str\<close> on a float, which is not modelled; it only
  renders the \<^verbatim>\<open>minRating\<close> query parameter.
\<close>

definition search_services_request ::
  "(rat \<Rightarrow> string) \<Rightarrow> operations \<Rightarrow>
   string option \<Rightarrow> string option \<Rightarrow> int option \<Rightarrow>
   rat option \<Rightarrow> int \<Rightarrow> int \<Rightarrow> request" where
  "search_services_request str_float self keyword category max_price min_rating limit offset =
     (let ps =
            (if truthy_str keyword then [(''q'', the keyword)] else []) @
            (if truthy_str category then [(''category'', the category)] else []) @
            (case max_price of None \<Rightarrow> [] | Some p \<Rightarrow> [(''maxPrice'', str_int p)]) @
            (case min_rating of None \<Rightarrow> [] | Some r \<Rightarrow> [(''minRating'', str_float r)]) @
            (if limit \<noteq> 0 then [(''limit'', str_int limit)] else []) @
            (if offset \<noteq> 0 then [(''offset'', str_int offset)] else [])
      in \<lparr>http_method = ''GET'', url = base_url self @ ''/api/services'',
          params = ps, json_body = None, headers = service_get_headers self\<rparr>)"

definition search_services ::
  "(rat \<Rightarrow> string) \<Rightarrow> operations \<Rightarrow> transport \<Rightarrow> string option \<Rightarrow> string option \<Rightarrow>
   int option \<Rightarrow> rat option \<Rightarrow> int \<Rightarrow> int \<Rightarrow> Service list call" where
  "search_services str_float self t keyword category max_price min_rating limit offset =
     (let req = search_services_request str_float self keyword category max_price
                  min_rating limit offset
      in ([req],
          except_RequestException ServiceError ''Failed to search services: ''
            (andThen (t req) (\<lambda>data.
             andThen (py_get_default data ''services'' (JList [])) (\<lambda>services_data.
             andThen (py_iter services_data) (\<lambda>ss.
               map_result parse_service ss))))))"

definition get_service_request :: "operations \<Rightarrow> string \<Rightarrow> request" where
  "get_service_request self service_id =
     \<lparr>http_method = ''GET'', url = base_url self @ ''/api/services/'' @ service_id,
      params = [], json_body = None, headers = service_get_headers self\<rparr>"

definition get_service :: "operations \<Rightarrow> transport \<Rightarrow> string \<Rightarrow> Service call" where
  "get_service self t service_id =
     (let req = get_service_request self service_id
      in ([req],
          except_RequestException ServiceError ''Failed to get service: ''
            (andThen (t req) (\<lambda>data.
             andThen (py_get data ''service'') (\<lambda>service_data.
               if \<not> truthy service_data
               then Inl (Raised ServiceError (''Service '' @ service_id @ '' not found''))
               else parse_service service_data)))))"

section \<open>Payment and execution operations (payments.py)\<close>

definition payment_get_headers :: "operations \<Rightarrow> (string \<times> string) list" where
  "payment_get_headers self =
     [(''Content-Type'', ''application/json'')] @
     (if has_api_key self
      then [(''Authorization'', ''Bearer '' @ the (api_key self)),
            (''x-api-key'', the (api_key self))]
      else [])"

definition parse_payment :: "json \<Rightarrow> Payment result" where
  "parse_payment data =
     andThen (py_index data ''id'') (\<lambda>v_id.
     andThen (py_index data ''serviceId'') (\<lambda>v_service_id.
     andThen (py_index data ''buyerWalletId'') (\<lambda>v_buyer_wallet_id.
     andThen (py_index data ''sellerWalletId'') (\<lambda>v_seller_wallet_id.
     andThen (py_index data ''amount'') (\<lambda>v_amount.
     andThen (py_index data ''platformFee'') (\<lambda>v_platform_fee.
     andThen (py_index data ''currency'') (\<lambda>v_currency.
     andThen (py_index data ''status'') (\<lambda>v_status.
     andThen (py_index data ''createdAt'') (\<lambda>v_created_at.
     andThen (py_get data ''disputeStatus'') (\<lambda>v_dispute_status.
     andThen (py_get data ''txId'') (\<lambda>v_tx_id.
     andThen (py_get data ''completedAt'') (\<lambda>v_completed_at.
       Inr \<lparr>id_payment = v_id, service_id_payment = v_service_id,
            buyer_wallet_id_payment = v_buyer_wallet_id,
            seller_wallet_id_payment = v_seller_wallet_id, amount_payment = v_amount,
            platform_fee_payment = v_platform_fee, currency_payment = v_currency,
            status_payment = v_status, created_at_payment = v_created_at,
            dispute_status_payment = v_dispute_status, tx_id_payment = v_tx_id,
            completed_at_payment = v_completed_at\<rparr>))))))))))))"

definition parse_receipt :: "json \<Rightarrow> ExecutionReceipt result" where
  "parse_receipt data =
     andThen (py_index data ''id'') (\<lambda>v_id.
     andThen (py_index data ''paymentId'') (\<lambda>v_payment_id.
     andThen (py_index data ''serviceId'') (\<lambda>v_service_id.
     andThen (py_index data ''inputHash'') (\<lambda>v_input_hash.
     andThen (py_index data ''outputHash'') (\<lambda>v_output_hash.
     andThen (py_index data ''timestamp'') (\<lambda>v_timestamp.
     andThen (py_index data ''executionTimeMs'') (\<lambda>v_execution_time_ms.
     andThen (py_index data ''providerSignature'') (\<lambda>v_provider_signature.
     andThen (py_index data ''platformSignature'') (\<lambda>v_platform_signature.
     andThen (py_index data ''receiptHash'') (\<lambda>v_receipt_hash.
     andThen (py_get data ''blockchainTxId'') (\<lambda>v_blockchain_tx_id.
     andThen (py_get data ''blockchainAnchoredAt'') (\<lambda>v_blockchain_anchored_at.
       Inr \<lparr>id_receipt = v_id, payment_id_receipt = v_payment_id,
            service_id_receipt = v_service_id, input_hash_receipt = v_input_hash,
            output_hash_receipt = v_output_hash, timestamp_receipt = v_timestamp,
            execution_time_ms_receipt = v_execution_time_ms,
            provider_signature_receipt = v_provider_signature,
            platform_signature_receipt = v_platform_signature,
            receipt_hash_receipt = v_receipt_hash,
            blockchain_tx_id_receipt = v_blockchain_tx_id,
            blockchain_anchored_at_receipt = v_blockchain_anchored_at\<rparr>))))))))))))"

text \<open>
  The condition \<^verbatim>\<open>k in data and data[k]\<close> of \<^verbatim>\<open>execute\<close>: the subscript is evaluated
  only when the membership test holds.
\<close>

definition present_and_truthy :: "string \<Rightarrow> json \<Rightarrow> bool result" where
  "present_and_truthy k data =
     andThen (py_contains k data) (\<lambda>c.
       if c then andThen (py_index data k) (\<lambda>v. Inr (truthy v)) else Inr False)"

definition execute_request ::
  "operations \<Rightarrow> string \<Rightarrow> string \<Rightarrow>
   json \<Rightarrow> request" where
  "execute_request self service_id buyer_wallet_id input_data =
     (let payload = [(''buyerWalletId'', JStr buyer_wallet_id), (''input'', input_data)]
      in \<lparr>http_method = ''POST'', url = base_url self @ ''/api/execute/'' @ service_id,
          params = [], json_body = Some (JObj payload),
          headers = payment_get_headers self\<rparr>)"

definition execute ::
  "operations \<Rightarrow> transport \<Rightarrow> string \<Rightarrow> string \<Rightarrow> json \<Rightarrow> ExecutionResult call" where
  "execute self t service_id buyer_wallet_id input_data =
     (let req = execute_request self service_id buyer_wallet_id input_data
      in ([req],
          except_RequestException ExecutionError ''Service execution failed: ''
            (andThen (t req) (\<lambda>data.
             andThen (present_and_truthy ''receipt'' data) (\<lambda>has_receipt.
             andThen (if has_receipt
                      then andThen (py_index data ''receipt'') (\<lambda>rd.
                           andThen (parse_receipt rd) (\<lambda>r. Inr (Some r)))
                      else Inr None) (\<lambda>receipt.
             andThen (present_and_truthy ''payment'' data) (\<lambda>has_payment.
             andThen (if has_payment
                      then andThen (py_index data ''payment'') (\<lambda>pd.
                           andThen (parse_payment pd) (\<lambda>p. Inr (Some p)))
                      else Inr None) (\<lambda>payment.
             andThen (py_index data ''paymentId'') (\<lambda>v_payment_id.
             andThen (py_get_default data ''serviceId'' (JStr service_id)) (\<lambda>v_service_id.
             andThen (py_get_default data ''output'' (JObj [])) (\<lambda>v_output.
             andThen (py_get_default data ''executionTimeMs'' (JInt 0)) (\<lambda>v_execution_time_ms.
             andThen (py_get_default data ''status'' (JStr ''pending'')) (\<lambda>v_status.
               Inr \<lparr>payment_id_result = v_payment_id, service_id_result = v_service_id,
                    output_result = v_output,
                    execution_time_ms_result = v_execution_time_ms,
                    status_result = v_status, receipt_result = receipt,
                    payment_result = payment\<rparr>)))))))))))))"

definition get_payment_request :: "operations \<Rightarrow> string \<Rightarrow> request" where
  "get_payment_request self payment_id =
     \<lparr>http_method = ''GET'', url = base_url self @ ''/api/payments/'' @ payment_id,
      params = [], json_body = None, headers = payment_get_headers self\<rparr>"

definition get_payment :: "operations \<Rightarrow> transport \<Rightarrow> string \<Rightarrow> Payment call" where
  "get_payment self t payment_id =
     (let req = get_payment_request self payment_id
      in ([req],
          except_RequestException PaymentError ''Failed to get payment: ''
            (andThen (t req) (\<lambda>data.
             andThen (py_get data ''payment'') (\<lambda>payment_data.
               if \<not> truthy payment_data
               then Inl (Raised PaymentError (''Payment '' @ payment_id @ '' not found''))
               else parse_payment payment_data)))))"

definition get_receipt_request :: "operations \<Rightarrow> string \<Rightarrow> request" where
  "get_receipt_request self receipt_id =
     \<lparr>http_method = ''GET'', url = base_url self @ ''/api/receipts/'' @ receipt_id,
      params = [], json_body = None, headers = payment_get_headers self\<rparr>"

definition get_receipt :: "operations \<Rightarrow> transport \<Rightarrow> string \<Rightarrow> ExecutionReceipt call" where
  "get_receipt self t receipt_id =
     (let req = get_receipt_request self receipt_id
      in ([req],
          except_RequestException PaymentError ''Failed to get receipt: ''
            (andThen (t req) (\<lambda>data.
             andThen (py_get data ''receipt'') (\<lambda>receipt_data.
               if \<not> truthy receipt_data
               then Inl (Raised PaymentError (''Receipt '' @ receipt_id @ '' not found''))
               else parse_receipt receipt_data)))))"

section \<open>Dispute operations (disputes.py)\<close>

definition dispute_get_headers :: "operations \<Rightarrow> (string \<times> string) list" where
  "dispute_get_headers self =
     [(''Content-Type'', ''application/json'')] @
     (if has_api_key self
      then [(''Authorization'', ''Bearer '' @ the (api_key self)),
            (''x-api-key'', the (api_key self))]
      else [])"

definition parse_dispute :: "json \<Rightarrow> Dispute result" where
  "parse_dispute data =
     andThen (py_index data ''id'') (\<lambda>v_id.
     andThen (py_index data ''paymentId'') (\<lambda>v_payment_id.
     andThen (py_index data ''buyerWalletId'') (\<lambda>v_buyer_wallet_id.
     andThen (py_index data ''providerWalletId'') (\<lambda>v_provider_wallet_id.
     andThen (py_index data ''reason'') (\<lambda>v_reason.
     andThen (py_index data ''status'') (\<lambda>v_status.
     andThen (py_index data ''createdAt'') (\<lambda>v_created_at.
     andThen (py_get data ''evidence'') (\<lambda>v_evidence.
     andThen (py_get data ''resolution'') (\<lambda>v_resolution.
     andThen (py_get data ''splitPercent'') (\<lambda>v_split_percent.
     andThen (py_get data ''resolvedAt'') (\<lambda>v_resolved_at.
       Inr \<lparr>id_dispute = v_id, payment_id_dispute = v_payment_id,
            buyer_wallet_id_dispute = v_buyer_wallet_id,
            provider_wallet_id_dispute = v_provider_wallet_id,
            reason_dispute = v_reason, status_dispute = v_status,
            created_at_dispute = v_created_at, evidence_dispute = v_evidence,
            resolution_dispute = v_resolution, split_percent_dispute = v_split_percent,
            resolved_at_dispute = v_resolved_at\<rparr>)))))))))))"

definition open_dispute_request ::
  "operations \<Rightarrow> string \<Rightarrow> string \<Rightarrow>
   string option \<Rightarrow> request" where
  "open_dispute_request self payment_id reason evidence =
     (let payload =
            [(''paymentId'', JStr payment_id), (''reason'', JStr reason)] @
            (if truthy_str evidence then [(''evidence'', JStr (the evidence))] else [])
      in \<lparr>http_method = ''POST'', url = base_url self @ ''/api/disputes'',
          params = [], json_body = Some (JObj payload),
          headers = dispute_get_headers self\<rparr>)"

definition open_dispute ::
  "operations \<Rightarrow> transport \<Rightarrow> string \<Rightarrow> string \<Rightarrow> string option \<Rightarrow> Dispute call" where
  "open_dispute self t payment_id reason evidence =
     (let req = open_dispute_request self payment_id reason evidence
      in ([req],
          except_RequestException DisputeError ''Failed to open dispute: ''
            (andThen (t req) (\<lambda>data.
             andThen (py_get data ''dispute'') (\<lambda>dispute_data.
               if \<not> truthy dispute_data
               then Inl (Raised DisputeError ''Invalid response: missing dispute data'')
               else parse_dispute dispute_data)))))"

definition get_dispute_request :: "operations \<Rightarrow> string \<Rightarrow> request" where
  "get_dispute_request self dispute_id =
     \<lparr>http_method = ''GET'', url = base_url self @ ''/api/disputes/'' @ dispute_id,
      params = [], json_body = None, headers = dispute_get_headers self\<rparr>"

definition get_dispute :: "operations \<Rightarrow> transport \<Rightarrow> string \<Rightarrow> Dispute call" where
  "get_dispute self t dispute_id =
     (let req = get_dispute_request self dispute_id
      in ([req],
          except_RequestException DisputeError ''Failed to get dispute: ''
            (andThen (t req) (\<lambda>data.
             andThen (py_get data ''dispute'') (\<lambda>dispute_data.
               if \<not> truthy dispute_data
               then Inl (Raised DisputeError (''Dispute '' @ dispute_id @ '' not found''))
               else parse_dispute dispute_data)))))"

text \<open>
  The filter \<^verbatim>\<open>d.get("paymentId") == payment_id\<close> compares the entry's value with the
  string argument: it holds when the value is that string.
\<close>

definition get_payment_disputes_request :: "operations \<Rightarrow> request" where
  "get_payment_disputes_request self =
     \<lparr>http_method = ''GET'', url = base_url self @ ''/api/disputes'',
      params = [], json_body = None, headers = dispute_get_headers self\<rparr>"

definition get_payment_disputes ::
  "operations \<Rightarrow> transport \<Rightarrow> string \<Rightarrow> Dispute list call" where
  "get_payment_disputes self t payment_id =
     (let req = get_payment_disputes_request self
      in ([req],
          except_RequestException DisputeError ''Failed to get payment disputes: ''
            (andThen (t req) (\<lambda>data.
             andThen (py_get_default data ''disputes'' (JList [])) (\<lambda>disputes_data.
             andThen (py_iter disputes_data) (\<lambda>ds.
             andThen (filter_result
                        (\<lambda>d. andThen (py_get d ''paymentId'') (\<lambda>v. Inr (v = JStr payment_id)))
                        ds) (\<lambda>filtered.
               map_result parse_dispute filtered)))))))"

definition add_evidence :: "operations \<Rightarrow> transport \<Rightarrow> string \<Rightarrow> string \<Rightarrow> Dispute call" where
  "add_evidence self t dispute_id evidence =
     ([], Inl (Raised DisputeError
        (''Adding evidence after opening a dispute is not supported by this API version. '' @
         ''Pass evidence when calling open_dispute(...).'')))"

section \<open>Webhook operations (webhooks.py)\<close>

definition webhook_get_headers :: "operations \<Rightarrow> (string \<times> string) list" where
  "webhook_get_headers self =
     [(''Content-Type'', ''application/json'')] @
     (if has_api_key self
      then [(''Authorization'', ''Bearer '' @ the (api_key self)),
            (''x-api-key'', the (api_key self))]
      else [])"

definition parse_webhook :: "json \<Rightarrow> Webhook result" where
  "parse_webhook data =
     andThen (py_index data ''id'') (\<lambda>v_id.
     andThen (py_index data ''url'') (\<lambda>v_url.
     andThen (py_index data ''events'') (\<lambda>v_events.
     andThen (py_index data ''active'') (\<lambda>v_active.
     andThen (py_index data ''createdAt'') (\<lambda>v_created_at.
     andThen (py_get data ''secret'') (\<lambda>v_secret.
       Inr \<lparr>id_webhook = v_id, url_webhook = v_url, events_webhook = v_events,
            active_webhook = v_active, created_at_webhook = v_created_at,
            secret_webhook = v_secret\<rparr>))))))"

definition register_webhook_request ::
  "operations \<Rightarrow> string \<Rightarrow> string list \<Rightarrow> request" where
  "register_webhook_request self webhook_url events =
     (let payload = [(''url'', JStr webhook_url), (''events'', JList (map JStr events))]
      in \<lparr>http_method = ''POST'', url = base_url self @ ''/api/webhooks'',
          params = [], json_body = Some (JObj payload),
          headers = webhook_get_headers self\<rparr>)"

definition register_webhook ::
  "operations \<Rightarrow> transport \<Rightarrow> string \<Rightarrow> string list \<Rightarrow> Webhook call" where
  "register_webhook self t webhook_url events =
     (let req = register_webhook_request self webhook_url events
      in ([req],
          except_RequestException WebhookError ''Failed to register webhook: ''
            (andThen (t req) (\<lambda>data.
             andThen (py_get data ''webhook'') (\<lambda>webhook_data.
               if \<not> truthy webhook_data
               then Inl (Raised WebhookError ''Invalid response: missing webhook data'')
               else parse_webhook webhook_data)))))"

definition list_webhooks_request :: "operations \<Rightarrow> request" where
  "list_webhooks_request self =
     \<lparr>http_method = ''GET'', url = base_url self @ ''/api/webhooks'',
      params = [], json_body = None, headers = webhook_get_headers self\<rparr>"

definition list_webhooks :: "operations \<Rightarrow> transport \<Rightarrow> Webhook list call" where
  "list_webhooks self t =
     (let req = list_webhooks_request self
      in ([req],
          except_RequestException WebhookError ''Failed to list webhooks: ''
            (andThen (t req) (\<lambda>data.
             andThen (py_get_default data ''webhooks'' (JList [])) (\<lambda>webhooks_data.
             andThen (py_iter webhooks_data) (\<lambda>ws.
               map_result parse_webhook ws))))))"

text \<open>
  The loop of \<^verbatim>\<open>get_webhook\<close>: it returns at the first webhook whose id equals the
  string argument; \<open>None\<close> is falling out of the loop.
\<close>

fun scan_webhooks :: "string \<Rightarrow> Webhook list \<Rightarrow> Webhook option" where
  "scan_webhooks webhook_id [] = None"
| "scan_webhooks webhook_id (webhook # webhooks) =
     (if id_webhook webhook = JStr webhook_id then Some webhook
      else scan_webhooks webhook_id webhooks)"

text \<open>
  The two handlers of \<^verbatim>\<open>get_webhook\<close>, in their order:
  \<^verbatim>\<open>except WebhookError: raise\<close>, then the one for \<^verbatim>\<open>requests.RequestException\<close>.
\<close>

definition get_webhook_handlers :: "'a result \<Rightarrow> 'a result" where
  "get_webhook_handlers body =
     (case body of
        Inl (Raised c m) \<Rightarrow>
          if c = WebhookError then Inl (Raised c m)
          else if is_RequestException c
          then Inl (Raised WebhookError (''Failed to get webhook: '' @ m))
          else Inl (Raised c m)
      | Inr v \<Rightarrow> Inr v)"

definition get_webhook :: "operations \<Rightarrow> transport \<Rightarrow> string \<Rightarrow> Webhook call" where
  "get_webhook self t webhook_id =
     (case list_webhooks self t of (reqs, r) \<Rightarrow>
        (reqs,
         get_webhook_handlers
           (andThen r (\<lambda>webhooks.
              case scan_webhooks webhook_id webhooks of
                Some webhook \<Rightarrow> Inr webhook
              | None \<Rightarrow> Inl (Raised WebhookError (''Webhook '' @ webhook_id @ '' not found''))))))"

text \<open>
  \<^verbatim>\<open>delete_webhook\<close> does not decode the body: here a transport that raises stands
  for \<^verbatim>\<open>requests.delete\<close> or \<^verbatim>\<open>raise_for_status\<close> raising, and any reply for success.
\<close>

definition delete_webhook_request ::
  "operations \<Rightarrow> string \<Rightarrow> request" where
  "delete_webhook_request self webhook_id =
     \<lparr>http_method = ''DELETE'', url = base_url self @ ''/api/webhooks/'' @ webhook_id,
      params = [], json_body = None, headers = webhook_get_headers self\<rparr>"

definition delete_webhook :: "operations \<Rightarrow> transport \<Rightarrow> string \<Rightarrow> bool call" where
  "delete_webhook self t webhook_id =
     (let req = delete_webhook_request self webhook_id
      in ([req],
          except_RequestException WebhookError ''Failed to delete webhook: ''
            (andThen (t req) (\<lambda>data. Inr True))))"

definition update_webhook_request ::
  "operations \<Rightarrow> string \<Rightarrow> string option \<Rightarrow>
   string list option \<Rightarrow> bool option \<Rightarrow> request" where
  "update_webhook_request self webhook_id new_url events active =
     (let payload =
            (case new_url of None \<Rightarrow> [] | Some u \<Rightarrow> [(''url'', JStr u)]) @
            (case events of None \<Rightarrow> [] | Some es \<Rightarrow> [(''events'', JList (map JStr es))]) @
            (case active of None \<Rightarrow> [] | Some a \<Rightarrow> [(''active'', JBool a)])
      in \<lparr>http_method = ''PUT'', url = base_url self @ ''/api/webhooks/'' @ webhook_id,
          params = [], json_body = Some (JObj payload),
          headers = webhook_get_headers self\<rparr>)"

definition update_webhook ::
  "operations \<Rightarrow> transport \<Rightarrow> string \<Rightarrow> string option \<Rightarrow> string list option \<Rightarrow> bool option \<Rightarrow>
   Webhook call" where
  "update_webhook self t webhook_id new_url events active =
     (let req = update_webhook_request self webhook_id new_url events active
      in ([req],
          except_RequestException WebhookError ''Failed to update webhook: ''
            (andThen (t req) (\<lambda>data.
             andThen (py_get data ''webhook'') (\<lambda>webhook_data.
               if \<not> truthy webhook_data
               then Inl (Raised WebhookError ''Invalid response: missing webhook data'')
               else parse_webhook webhook_data)))))"

section \<open>The facade client (client.py)\<close>

text \<open>
  \<^verbatim>\<open>AgentPayClient.__init__\<close> strips the trailing slashes of the base URL and builds the
  five operation groups from the same base URL and key, so the client is the same pair.
\<close>

definition rstrip_slash :: "string \<Rightarrow> string" where
  "rstrip_slash s = rev (dropWhile (\<lambda>c. c = CHR ''/'') (rev s))"

definition AgentPayClient :: "string \<Rightarrow> string option \<Rightarrow> operations" where
  "AgentPayClient b k = \<lparr>base_url = rstrip_slash b, api_key = k\<rparr>"

definition add_dispute_evidence ::
  "operations \<Rightarrow> transport \<Rightarrow> string \<Rightarrow> string \<Rightarrow> Dispute call" where
  "add_dispute_evidence self t dispute_id evidence = add_evidence self t dispute_id evidence"

definition get_reputation_request ::
  "operations \<Rightarrow> string \<Rightarrow> request" where
  "get_reputation_request self agent_id =
     (let hs = [(''Content-Type'', ''application/json'')] @
               (if has_api_key self
                then [(''Authorization'', ''Bearer '' @ the (api_key self))] else [])
      in \<lparr>http_method = ''GET'',
          url = base_url self @ ''/api/agents/'' @ agent_id @ ''/reputation'',
          params = [], json_body = None, headers = hs\<rparr>)"

definition get_reputation :: "operations \<Rightarrow> transport \<Rightarrow> string \<Rightarrow> ReputationScore call" where
  "get_reputation self t agent_id =
     (let req = get_reputation_request self agent_id
      in ([req],
          except_RequestException AgentPayError ''Failed to get reputation: ''
            (andThen (t req) (\<lambda>data.
             andThen (py_get data ''reputation'') (\<lambda>rep_data.
               if \<not> truthy rep_data
               then Inl (Raised AgentPayError
                           (''Reputation for agent '' @ agent_id @ '' not found''))
               else
                 andThen (py_index rep_data ''agentId'') (\<lambda>v_agent_id.
                 andThen (py_index rep_data ''totalJobs'') (\<lambda>v_total_jobs.
                 andThen (py_index rep_data ''successRate'') (\<lambda>v_success_rate.
                 andThen (py_index rep_data ''avgResponseTimeMs'') (\<lambda>v_avg_response_time_ms.
                 andThen (py_index rep_data ''totalEarned'') (\<lambda>v_total_earned.
                 andThen (py_index rep_data ''totalSpent'') (\<lambda>v_total_spent.
                 andThen (py_index rep_data ''rating'') (\<lambda>v_rating.
                   Inr \<lparr>agent_id_reputation = v_agent_id,
                        total_jobs_reputation = v_total_jobs,
                        success_rate_reputation = v_success_rate,
                        avg_response_time_ms_reputation = v_avg_response_time_ms,
                        total_earned_reputation = v_total_earned,
                        total_spent_reputation = v_total_spent,
                        rating_reputation = v_rating\<rparr>))))))))))))"

section \<open>Vocabulary of the properties\<close>

text \<open>
  \<open>wire_field fs k d\<close> is the value that the items \<open>fs\<close> of a reply object give to the
  key \<open>k\<close>, and \<open>d\<close> when the key is missing.
\<close>

definition wire_field :: "(string \<times> json) list \<Rightarrow> string \<Rightarrow> json \<Rightarrow> json" where
  "wire_field fs k d = (case map_of fs k of None \<Rightarrow> d | Some v \<Rightarrow> v)"

text \<open>The key is missing from the items, or its value is falsy.\<close>

definition absent_or_falsy :: "(string \<times> json) list \<Rightarrow> string \<Rightarrow> bool" where
  "absent_or_falsy kvs k = (case map_of kvs k of None \<Rightarrow> True | Some v \<Rightarrow> \<not> truthy v)"


definition service_mandatory :: "string list" where
  "service_mandatory =
     [''id'', ''agentId'', ''name'', ''description'', ''category'', ''price'', ''currency'',
      ''endpoint'', ''method'', ''active'', ''createdAt'', ''updatedAt'']"

definition payment_mandatory :: "string list" where
  "payment_mandatory =
     [''id'', ''serviceId'', ''buyerWalletId'', ''sellerWalletId'', ''amount'', ''platformFee'',
      ''currency'', ''status'', ''createdAt'']"

definition receipt_mandatory :: "string list" where
  "receipt_mandatory =
     [''id'', ''paymentId'', ''serviceId'', ''inputHash'', ''outputHash'', ''timestamp'',
      ''executionTimeMs'', ''providerSignature'', ''platformSignature'', ''receiptHash'']"

definition dispute_mandatory :: "string list" where
  "dispute_mandatory =
     [''id'', ''paymentId'', ''buyerWalletId'', ''providerWalletId'', ''reason'', ''status'',
      ''createdAt'']"

definition webhook_mandatory :: "string list" where
  "webhook_mandatory = [''id'', ''url'', ''events'', ''active'', ''createdAt'']"



section \<open>Basic facts\<close>

lemma andThen_Inl [simp]: "andThen (Inl e) f = Inl e"
  by (simp add: andThen_def)

lemma andThen_Inr [simp]: "andThen (Inr v) f = f v"
  by (simp add: andThen_def)

lemma andThen_eq_Inr: "andThen m f = Inr r \<longleftrightarrow> (\<exists>v. m = Inr v \<and> f v = Inr r)"
  by (cases m) auto

lemma andThen_eq_Inl:
  "andThen m f = Inl e \<longleftrightarrow> m = Inl e \<or> (\<exists>v. m = Inr v \<and> f v = Inl e)"
  by (cases m) auto

lemma py_index_eq_Inr: "py_index (JObj fs) k = Inr v \<longleftrightarrow> map_of fs k = Some v"
  by (cases "map_of fs k") auto

lemma py_index_eq_Inl:
  "py_index (JObj fs) k = Inl e \<longleftrightarrow> map_of fs k = None \<and> e = Raised KeyError k"
  by (cases "map_of fs k") auto

lemma py_get_obj: "py_get (JObj fs) k = Inr (wire_field fs k JNull)"
  by (simp add: wire_field_def)

lemma py_get_default_obj: "py_get_default (JObj fs) k d = Inr (wire_field fs k d)"
  by (simp add: wire_field_def)

lemmas parse_Inr = andThen_eq_Inr py_index_eq_Inr py_get_obj py_get_default_obj
lemmas parse_Inl = andThen_eq_Inl py_index_eq_Inl py_get_obj py_get_default_obj

lemma py_index_not_obj:
  "\<forall>fs. d \<noteq> JObj fs \<Longrightarrow> py_index d k = Inl (Raised TypeError ''subscript'')"
  by (cases d) auto

lemma except_RequestException_Inr [simp]:
  "except_RequestException C p (Inr v) = Inr v"
  by (simp add: except_RequestException_def)

lemma except_RequestException_Inl [simp]:
  "except_RequestException C p (Inl (Raised c m)) =
     (if is_RequestException c then Inl (Raised C (p @ m)) else Inl (Raised c m))"
  by (simp add: except_RequestException_def)

lemma except_RequestException_id:
  assumes "\<And>c m. r = Inl (Raised c m) \<Longrightarrow> \<not> is_RequestException c"
  shows "except_RequestException C p r = r"
proof (cases r)
  case (Inl e)
  then show ?thesis using assms by (cases e) simp
next
  case (Inr v)
  then show ?thesis by simp
qed

section \<open>The parsing routines on a reply object\<close>

lemma parse_service_fields:
  assumes "parse_service (JObj fs) = Inr s"
  shows "map_of fs ''id'' = Some (id_service s) \<and>
     map_of fs ''agentId'' = Some (agent_id_service s) \<and>
     map_of fs ''name'' = Some (name_service s) \<and>
     map_of fs ''description'' = Some (description_service s) \<and>
     map_of fs ''category'' = Some (category_service s) \<and>
     map_of fs ''price'' = Some (price_service s) \<and>
     map_of fs ''currency'' = Some (currency_service s) \<and>
     map_of fs ''endpoint'' = Some (endpoint_service s) \<and>
     map_of fs ''method'' = Some (method_service s) \<and>
     map_of fs ''active'' = Some (active_service s) \<and>
     timeout_service s = wire_field fs ''timeout'' (JInt 30) \<and>
     dispute_window_service s = wire_field fs ''disputeWindow'' (JInt 30) \<and>
     map_of fs ''createdAt'' = Some (created_at_service s) \<and>
     map_of fs ''updatedAt'' = Some (updated_at_service s) \<and>
     input_schema_service s = wire_field fs ''inputSchema'' JNull \<and>
     output_schema_service s = wire_field fs ''outputSchema'' JNull"
  using assms unfolding parse_service_def parse_Inr
  by clarsimp

lemma parse_service_Inl:
  assumes "parse_service (JObj fs) = Inl e"
  shows "\<exists>k \<in> set service_mandatory. map_of fs k = None \<and> e = Raised KeyError k"
  using assms unfolding parse_service_def parse_Inl service_mandatory_def
  by (elim disjE exE conjE) simp_all

lemma parse_payment_fields:
  assumes "parse_payment (JObj fs) = Inr p"
  shows "map_of fs ''id'' = Some (id_payment p) \<and>
     map_of fs ''serviceId'' = Some (service_id_payment p) \<and>
     map_of fs ''buyerWalletId'' = Some (buyer_wallet_id_payment p) \<and>
     map_of fs ''sellerWalletId'' = Some (seller_wallet_id_payment p) \<and>
     map_of fs ''amount'' = Some (amount_payment p) \<and>
     map_of fs ''platformFee'' = Some (platform_fee_payment p) \<and>
     map_of fs ''currency'' = Some (currency_payment p) \<and>
     map_of fs ''status'' = Some (status_payment p) \<and>
     map_of fs ''createdAt'' = Some (created_at_payment p) \<and>
     dispute_status_payment p = wire_field fs ''disputeStatus'' JNull \<and>
     tx_id_payment p = wire_field fs ''txId'' JNull \<and>
     completed_at_payment p = wire_field fs ''completedAt'' JNull"
  using assms unfolding parse_payment_def parse_Inr
  by clarsimp

lemma parse_payment_Inl:
  assumes "parse_payment (JObj fs) = Inl e"
  shows "\<exists>k \<in> set payment_mandatory. map_of fs k = None \<and> e = Raised KeyError k"
  using assms unfolding parse_payment_def parse_Inl payment_mandatory_def
  by (elim disjE exE conjE) simp_all

lemma parse_receipt_fields:
  assumes "parse_receipt (JObj fs) = Inr r"
  shows "map_of fs ''id'' = Some (id_receipt r) \<and>
     map_of fs ''paymentId'' = Some (payment_id_receipt r) \<and>
     map_of fs ''serviceId'' = Some (service_id_receipt r) \<and>
     map_of fs ''inputHash'' = Some (input_hash_receipt r) \<and>
     map_of fs ''outputHash'' = Some (output_hash_receipt r) \<and>
     map_of fs ''timestamp'' = Some (timestamp_receipt r) \<and>
     map_of fs ''executionTimeMs'' = Some (execution_time_ms_receipt r) \<and>
     map_of fs ''providerSignature'' = Some (provider_signature_receipt r) \<and>
     map_of fs ''platformSignature'' = Some (platform_signature_receipt r) \<and>
     map_of fs ''receiptHash'' = Some (receipt_hash_receipt r) \<and>
     blockchain_tx_id_receipt r = wire_field fs ''blockchainTxId'' JNull \<and>
     blockchain_anchored_at_receipt r = wire_field fs ''blockchainAnchoredAt'' JNull"
  using assms unfolding parse_receipt_def parse_Inr
  by clarsimp

lemma parse_receipt_Inl:
  assumes "parse_receipt (JObj fs) = Inl e"
  shows "\<exists>k \<in> set receipt_mandatory. map_of fs k = None \<and> e = Raised KeyError k"
  using assms unfolding parse_receipt_def parse_Inl receipt_mandatory_def
  by (elim disjE exE conjE) simp_all

lemma parse_dispute_fields:
  assumes "parse_dispute (JObj fs) = Inr d"
  shows "map_of fs ''id'' = Some (id_dispute d) \<and>
     map_of fs ''paymentId'' = Some (payment_id_dispute d) \<and>
     map_of fs ''buyerWalletId'' = Some (buyer_wallet_id_dispute d) \<and>
     map_of fs ''providerWalletId'' = Some (provider_wallet_id_dispute d) \<and>
     map_of fs ''reason'' = Some (reason_dispute d) \<and>
     map_of fs ''status'' = Some (status_dispute d) \<and>
     map_of fs ''createdAt'' = Some (created_at_dispute d) \<and>
     evidence_dispute d = wire_field fs ''evidence'' JNull \<and>
     resolution_dispute d = wire_field fs ''resolution'' JNull \<and>
     split_percent_dispute d = wire_field fs ''splitPercent'' JNull \<and>
     resolved_at_dispute d = wire_field fs ''resolvedAt'' JNull"
  using assms unfolding parse_dispute_def parse_Inr
  by clarsimp

lemma parse_dispute_Inl:
  assumes "parse_dispute (JObj fs) = Inl e"
  shows "\<exists>k \<in> set dispute_mandatory. map_of fs k = None \<and> e = Raised KeyError k"
  using assms unfolding parse_dispute_def parse_Inl dispute_mandatory_def
  by (elim disjE exE conjE) simp_all

lemma parse_webhook_fields:
  assumes "parse_webhook (JObj fs) = Inr w"
  shows "map_of fs ''id'' = Some (id_webhook w) \<and>
     map_of fs ''url'' = Some (url_webhook w) \<and>
     map_of fs ''events'' = Some (events_webhook w) \<and>
     map_of fs ''active'' = Some (active_webhook w) \<and>
     map_of fs ''createdAt'' = Some (created_at_webhook w) \<and>
     secret_webhook w = wire_field fs ''secret'' JNull"
  using assms unfolding parse_webhook_def parse_Inr
  by clarsimp

lemma parse_webhook_Inl:
  assumes "parse_webhook (JObj fs) = Inl e"
  shows "\<exists>k \<in> set webhook_mandatory. map_of fs k = None \<and> e = Raised KeyError k"
  using assms unfolding parse_webhook_def parse_Inl webhook_mandatory_def
  by (elim disjE exE conjE) simp_all

text \<open>A value that is not an object fails at the first subscript.\<close>

lemma parse_not_obj:
  assumes "\<forall>fs. d \<noteq> JObj fs"
  shows "parse_service d = Inl (Raised TypeError ''subscript'')"
    and "parse_payment d = Inl (Raised TypeError ''subscript'')"
    and "parse_receipt d = Inl (Raised TypeError ''subscript'')"
    and "parse_dispute d = Inl (Raised TypeError ''subscript'')"
    and "parse_webhook d = Inl (Raised TypeError ''subscript'')"
  using py_index_not_obj [OF assms]
  by (simp_all add: parse_service_def parse_payment_def parse_receipt_def parse_dispute_def
      parse_webhook_def)

lemma parse_service_no_RequestException:
  "parse_service d = Inl (Raised c m) \<Longrightarrow> \<not> is_RequestException c"
proof (cases "\<exists>fs. d = JObj fs")
  case True
  assume "parse_service d = Inl (Raised c m)"
  with True show ?thesis by (auto dest: parse_service_Inl)
next
  case False
  assume "parse_service d = Inl (Raised c m)"
  with False show ?thesis by (simp add: parse_not_obj)
qed


lemma parse_payment_no_RequestException:
  "parse_payment d = Inl (Raised c m) \<Longrightarrow> \<not> is_RequestException c"
proof (cases "\<exists>fs. d = JObj fs")
  case True
  assume "parse_payment d = Inl (Raised c m)"
  with True show ?thesis by (auto dest: parse_payment_Inl)
next
  case False
  assume "parse_payment d = Inl (Raised c m)"
  with False show ?thesis by (simp add: parse_not_obj)
qed

lemma parse_receipt_no_RequestException:
  "parse_receipt d = Inl (Raised c m) \<Longrightarrow> \<not> is_RequestException c"
proof (cases "\<exists>fs. d = JObj fs")
  case True
  assume "parse_receipt d = Inl (Raised c m)"
  with True show ?thesis by (auto dest: parse_receipt_Inl)
next
  case False
  assume "parse_receipt d = Inl (Raised c m)"
  with False show ?thesis by (simp add: parse_not_obj)
qed

lemma parse_dispute_no_RequestException:
  "parse_dispute d = Inl (Raised c m) \<Longrightarrow> \<not> is_RequestException c"
proof (cases "\<exists>fs. d = JObj fs")
  case True
  assume "parse_dispute d = Inl (Raised c m)"
  with True show ?thesis by (auto dest: parse_dispute_Inl)
next
  case False
  assume "parse_dispute d = Inl (Raised c m)"
  with False show ?thesis by (simp add: parse_not_obj)
qed

lemma parse_webhook_no_RequestException:
  "parse_webhook d = Inl (Raised c m) \<Longrightarrow> \<not> is_RequestException c"
proof (cases "\<exists>fs. d = JObj fs")
  case True
  assume "parse_webhook d = Inl (Raised c m)"
  with True show ?thesis by (auto dest: parse_webhook_Inl)
next
  case False
  assume "parse_webhook d = Inl (Raised c m)"
  with False show ?thesis by (simp add: parse_not_obj)
qed

lemma except_parse [simp]:
  "except_RequestException C p (parse_service d) = parse_service d"
  "except_RequestException C p (parse_payment d1) = parse_payment d1"
  "except_RequestException C p (parse_receipt d2) = parse_receipt d2"
  "except_RequestException C p (parse_dispute d3) = parse_dispute d3"
  "except_RequestException C p (parse_webhook d4) = parse_webhook d4"
  by (rule except_RequestException_id,
      erule parse_service_no_RequestException parse_payment_no_RequestException
        parse_receipt_no_RequestException parse_dispute_no_RequestException
        parse_webhook_no_RequestException)+

section \<open>Single-resource calls on a reply object\<close>

text \<open>
  When the transport yields an object, a call that reads a success key raises its own
  error if the key is missing or falsy, and otherwise hands the value to its parsing
  routine, whose exceptions the handler lets through.
\<close>

lemma get_service_reply:
  assumes "t (get_service_request self service_id) = Inr (JObj kvs)"
  shows "snd (get_service self t service_id) =
           (if absent_or_falsy kvs ''service''
            then Inl (Raised ServiceError (''Service '' @ service_id @ '' not found''))
            else parse_service (wire_field kvs ''service'' JNull))"
  using assms
  by (simp add: get_service_def Let_def absent_or_falsy_def wire_field_def split: option.splits)

lemma register_service_reply:
  assumes "t (register_service_request uu self agent_id name description price endpoint
                category currency method timeout dispute_window input_schema output_schema) =
             Inr (JObj kvs)"
  shows "snd (register_service uu self t agent_id name description price endpoint
                category currency method timeout dispute_window input_schema output_schema) =
           (if absent_or_falsy kvs ''service''
            then Inl (Raised ServiceError ''Invalid response: missing service data'')
            else parse_service (wire_field kvs ''service'' JNull))"
  using assms
  by (simp add: register_service_def Let_def absent_or_falsy_def wire_field_def split: option.splits)

lemma get_payment_reply:
  assumes "t (get_payment_request self payment_id) = Inr (JObj kvs)"
  shows "snd (get_payment self t payment_id) =
           (if absent_or_falsy kvs ''payment''
            then Inl (Raised PaymentError (''Payment '' @ payment_id @ '' not found''))
            else parse_payment (wire_field kvs ''payment'' JNull))"
  using assms
  by (simp add: get_payment_def Let_def absent_or_falsy_def wire_field_def split: option.splits)

lemma get_receipt_reply:
  assumes "t (get_receipt_request self receipt_id) = Inr (JObj kvs)"
  shows "snd (get_receipt self t receipt_id) =
           (if absent_or_falsy kvs ''receipt''
            then Inl (Raised PaymentError (''Receipt '' @ receipt_id @ '' not found''))
            else parse_receipt (wire_field kvs ''receipt'' JNull))"
  using assms
  by (simp add: get_receipt_def Let_def absent_or_falsy_def wire_field_def split: option.splits)

lemma open_dispute_reply:
  assumes "t (open_dispute_request self payment_id reason evidence) = Inr (JObj kvs)"
  shows "snd (open_dispute self t payment_id reason evidence) =
           (if absent_or_falsy kvs ''dispute''
            then Inl (Raised DisputeError ''Invalid response: missing dispute data'')
            else parse_dispute (wire_field kvs ''dispute'' JNull))"
  using assms
  by (simp add: open_dispute_def Let_def absent_or_falsy_def wire_field_def split: option.splits)

lemma get_dispute_reply:
  assumes "t (get_dispute_request self dispute_id) = Inr (JObj kvs)"
  shows "snd (get_dispute self t dispute_id) =
           (if absent_or_falsy kvs ''dispute''
            then Inl (Raised DisputeError (''Dispute '' @ dispute_id @ '' not found''))
            else parse_dispute (wire_field kvs ''dispute'' JNull))"
  using assms
  by (simp add: get_dispute_def Let_def absent_or_falsy_def wire_field_def split: option.splits)

lemma register_webhook_reply:
  assumes "t (register_webhook_request self webhook_url events) = Inr (JObj kvs)"
  shows "snd (register_webhook self t webhook_url events) =
           (if absent_or_falsy kvs ''webhook''
            then Inl (Raised WebhookError ''Invalid response: missing webhook data'')
            else parse_webhook (wire_field kvs ''webhook'' JNull))"
  using assms
  by (simp add: register_webhook_def Let_def absent_or_falsy_def wire_field_def split: option.splits)

lemma update_webhook_reply:
  assumes "t (update_webhook_request self webhook_id new_url events active) = Inr (JObj kvs)"
  shows "snd (update_webhook self t webhook_id new_url events active) =
           (if absent_or_falsy kvs ''webhook''
            then Inl (Raised WebhookError ''Invalid response: missing webhook data'')
            else parse_webhook (wire_field kvs ''webhook'' JNull))"
  using assms
  by (simp add: update_webhook_def Let_def absent_or_falsy_def wire_field_def split: option.splits)


section \<open>The calls that build their record in place\<close>

lemma create_wallet_top:
  assumes "t (create_wallet_request self) = Inr (JObj kvs)"
    and "absent_or_falsy kvs ''wallet''"
  shows "snd (create_wallet self t) =
           Inl (Raised WalletError ''Invalid response: missing wallet data'')"
  using assms
  by (simp add: create_wallet_def Let_def absent_or_falsy_def wire_field_def
      split: option.splits)

lemma get_wallet_top:
  assumes "t (get_wallet_request self wallet_id) = Inr (JObj kvs)"
    and "absent_or_falsy kvs ''wallet''"
  shows "snd (get_wallet self t wallet_id) =
           Inl (Raised WalletError (''Wallet '' @ wallet_id @ '' not found''))"
  using assms
  by (simp add: get_wallet_def Let_def absent_or_falsy_def wire_field_def
      split: option.splits)

lemma get_reputation_top:
  assumes "t (get_reputation_request self agent_id) = Inr (JObj kvs)"
    and "absent_or_falsy kvs ''reputation''"
  shows "snd (get_reputation self t agent_id) =
           Inl (Raised AgentPayError (''Reputation for agent '' @ agent_id @ '' not found''))"
  using assms
  by (simp add: get_reputation_def Let_def absent_or_falsy_def wire_field_def
      split: option.splits)

lemma except_RequestException_eq_Inr:
  "except_RequestException C p r = Inr v \<longleftrightarrow> r = Inr v"
  by (cases r) (auto simp: except_RequestException_def split: exn.splits)

lemma create_wallet_fields:
  assumes "t (create_wallet_request self) = Inr (JObj kvs)"
    and "map_of kvs ''wallet'' = Some (JObj fs)"
    and "snd (create_wallet self t) = Inr w"
  shows "map_of fs ''id'' = Some (id_wallet w) \<and>
     map_of fs ''publicKey'' = Some (public_key_wallet w) \<and>
     map_of fs ''address'' = Some (address_wallet w) \<and>
     map_of fs ''createdAt'' = Some (created_at_wallet w) \<and>
     balance_wallet w = wire_field fs ''balance'' JNull \<and>
     balance_mnee_wallet w = wire_field fs ''balanceMnee'' JNull"
proof (cases "fs = []")
  case True
  with assms show ?thesis by (simp add: create_wallet_def Let_def)
next
  case False
  have top: "wire_field kvs ''wallet'' JNull = JObj fs"
    using assms(2) by (simp add: wire_field_def)
  from False assms show ?thesis
    unfolding create_wallet_def Let_def snd_conv except_RequestException_eq_Inr
    by (simp add: parse_Inr top del: py_index.simps py_get.simps) auto
qed

lemma get_wallet_fields:
  assumes "t (get_wallet_request self wallet_id) = Inr (JObj kvs)"
    and "map_of kvs ''wallet'' = Some (JObj fs)"
    and "snd (get_wallet self t wallet_id) = Inr w"
  shows "map_of fs ''id'' = Some (id_wallet w) \<and>
     map_of fs ''publicKey'' = Some (public_key_wallet w) \<and>
     map_of fs ''address'' = Some (address_wallet w) \<and>
     map_of fs ''createdAt'' = Some (created_at_wallet w) \<and>
     balance_wallet w = wire_field fs ''balance'' JNull \<and>
     balance_mnee_wallet w = wire_field fs ''balanceMnee'' JNull"
proof (cases "fs = []")
  case True
  with assms show ?thesis by (simp add: get_wallet_def Let_def)
next
  case False
  have top: "wire_field kvs ''wallet'' JNull = JObj fs"
    using assms(2) by (simp add: wire_field_def)
  from False assms show ?thesis
    unfolding get_wallet_def Let_def snd_conv except_RequestException_eq_Inr
    by (simp add: parse_Inr top del: py_index.simps py_get.simps) auto
qed

lemma get_reputation_fields:
  assumes "t (get_reputation_request self agent_id) = Inr (JObj kvs)"
    and "map_of kvs ''reputation'' = Some (JObj fs)"
    and "snd (get_reputation self t agent_id) = Inr r"
  shows "map_of fs ''agentId'' = Some (agent_id_reputation r) \<and>
     map_of fs ''totalJobs'' = Some (total_jobs_reputation r) \<and>
     map_of fs ''successRate'' = Some (success_rate_reputation r) \<and>
     map_of fs ''avgResponseTimeMs'' = Some (avg_response_time_ms_reputation r) \<and>
     map_of fs ''totalEarned'' = Some (total_earned_reputation r) \<and>
     map_of fs ''totalSpent'' = Some (total_spent_reputation r) \<and>
     map_of fs ''rating'' = Some (rating_reputation r)"
proof (cases "fs = []")
  case True
  with assms show ?thesis by (simp add: get_reputation_def Let_def)
next
  case False
  have top: "wire_field kvs ''reputation'' JNull = JObj fs"
    using assms(2) by (simp add: wire_field_def)
  from False assms show ?thesis
    unfolding get_reputation_def Let_def snd_conv except_RequestException_eq_Inr
    by (simp add: parse_Inr top del: py_index.simps py_get.simps) auto
qed

text \<open>
  With every subscripted key present the record is built; with one missing, the
  \<open>KeyError\<close> of the first missing key leaves the call.
\<close>

lemma create_wallet_present:
  assumes "t (create_wallet_request self) = Inr (JObj kvs)"
    and "map_of kvs ''wallet'' = Some (JObj fs)"
    and "map_of fs ''id'' = Some a" and "map_of fs ''publicKey'' = Some b"
    and "map_of fs ''address'' = Some c" and "map_of fs ''createdAt'' = Some d"
  shows "snd (create_wallet self t) =
           Inr \<lparr>id_wallet = a, public_key_wallet = b, address_wallet = c,
                created_at_wallet = d, balance_wallet = wire_field fs ''balance'' JNull,
                balance_mnee_wallet = wire_field fs ''balanceMnee'' JNull\<rparr>"
proof -
  have "fs \<noteq> []" using assms(3) by auto
  then show ?thesis using assms by (simp add: create_wallet_def Let_def wire_field_def)
qed


lemma except_RequestException_eq_Inl_other:
  assumes "except_RequestException C p r = Inl e" and "r = Inl (Raised c m)"
    and "\<not> is_RequestException c"
  shows "e = Raised c m"
  using assms by simp












section \<open>Wallet balance\<close>

lemma get_balance_fst:
  "fst (get_balance uu self t wallet_id currency) = fst (get_wallet self t wallet_id)"
  by (simp add: get_balance_def split: prod.splits)

lemma get_balance_snd:
  "snd (get_balance uu self t wallet_id currency) =
     andThen (snd (get_wallet self t wallet_id)) (\<lambda>wallet.
       if upper uu currency = ''BSV''
       then Inr (if truthy (balance_wallet wallet) then balance_wallet wallet else JInt 0)
       else if upper uu currency = ''MNEE''
       then Inr (if truthy (balance_mnee_wallet wallet)
                 then balance_mnee_wallet wallet else JInt 0)
       else Inl (Raised WalletError (''Invalid currency: '' @ currency)))"
  by (simp add: get_balance_def split: prod.splits)


text \<open>
  On a currency code of ASCII characters the comparison does not depend on the Unicode
  mappings: it is the comparison of the code, with \<open>a\<close> to \<open>z\<close> turned into capitals,
  with \<open>BSV\<close> and \<open>MNEE\<close>.
\<close>

lemma upper_ascii: "is_ascii s \<Longrightarrow> upper uu s = map upper_char s"
  by (simp add: upper_def)

text \<open>
  An unrecognised currency code never yields a balance, whatever the transport does.
\<close>

lemma get_balance_invalid_currency_never_returns:
  assumes "upper uu currency \<noteq> ''BSV''" and "upper uu currency \<noteq> ''MNEE''"
  shows "snd (get_balance uu self t wallet_id currency) \<noteq> Inr v"
  using assms by (cases "snd (get_wallet self t wallet_id)") (simp_all add: get_balance_snd)



text \<open>
  The code with the long s: the bytes of \<open>b\<close>, U+017F and \<open>v\<close> are not \<open>BSV\<close> in any
  ASCII letter case, but when the Unicode mappings take them to \<open>BSV\<close>, as Python's do,
  the balance is returned.
\<close>

lemma get_balance_long_s:
  assumes "uu [CHR ''b'', char_of (197 :: nat), char_of (191 :: nat), CHR ''v''] = ''BSV''"
    and "snd (get_wallet self t wallet_id) = Inr wallet"
    and "balance_wallet wallet = JInt 50000"
  shows "snd (get_balance uu self t wallet_id
                [CHR ''b'', char_of (197 :: nat), char_of (191 :: nat), CHR ''v'']) =
           Inr (JInt 50000)"
proof -
  have "\<not> is_ascii [CHR ''b'', char_of (197 :: nat), char_of (191 :: nat), CHR ''v'']"
    by code_simp
  then have "upper uu [CHR ''b'', char_of (197 :: nat), char_of (191 :: nat), CHR ''v''] =
             ''BSV''"
    using assms(1) by (simp add: upper_def)
  then show ?thesis
    using assms(2,3) by (simp add: get_balance_snd)
qed

section \<open>Evidence after opening a dispute\<close>

text \<open>
  Claim C6. For every dispute id and every evidence string, whatever the transport would
  answer, \<^verbatim>\<open>add_dispute_evidence\<close> sends no request and raises \<open>DisputeError\<close>, a
  domain error, whose message tells the caller to pass the evidence to
  \<^verbatim>\<open>open_dispute\<close>; it never returns a dispute.
\<close>

theorem add_dispute_evidence_always_fails:
  "fst (add_dispute_evidence self t dispute_id evidence) = [] \<and>
   snd (add_dispute_evidence self t dispute_id evidence) =
     Inl (Raised DisputeError
       (''Adding evidence after opening a dispute is not supported by this API version. '' @
        ''Pass evidence when calling open_dispute(...).'')) \<and>
   is_domain_error DisputeError \<and>
   (\<forall>d. snd (add_dispute_evidence self t dispute_id evidence) \<noteq> Inr d)"
  by (simp add: add_dispute_evidence_def add_evidence_def)


section \<open>A success key that is present but falsy\<close>


text \<open>
  Claim C10. Each of the eleven single-resource calls that read a success key from the
  reply object raises its own domain error when that key is present with a falsy value
  (such as the empty object, \<^verbatim>\<open>None\<close> or the empty string), and it is the error it
  raises when the key is absent; no record is returned.
\<close>

theorem falsy_success_key_as_absent:
  "(t (get_wallet_request self wallet_id) = Inr (JObj kvs) \<and> absent_or_falsy kvs ''wallet'' \<longrightarrow>
      snd (get_wallet self t wallet_id) =
        Inl (Raised WalletError (''Wallet '' @ wallet_id @ '' not found''))) \<and>
   (t (create_wallet_request self) = Inr (JObj kvs) \<and> absent_or_falsy kvs ''wallet'' \<longrightarrow>
      snd (create_wallet self t) =
        Inl (Raised WalletError ''Invalid response: missing wallet data'')) \<and>
   (t (get_service_request self service_id) = Inr (JObj kvs) \<and>
      absent_or_falsy kvs ''service'' \<longrightarrow>
      snd (get_service self t service_id) =
        Inl (Raised ServiceError (''Service '' @ service_id @ '' not found''))) \<and>
   (t (register_service_request uu self agent_id name description price endpoint category
         currency method timeout dispute_window input_schema output_schema) = Inr (JObj kvs) \<and>
      absent_or_falsy kvs ''service'' \<longrightarrow>
      snd (register_service uu self t agent_id name description price endpoint category
             currency method timeout dispute_window input_schema output_schema) =
        Inl (Raised ServiceError ''Invalid response: missing service data'')) \<and>
   (t (get_payment_request self payment_id) = Inr (JObj kvs) \<and>
      absent_or_falsy kvs ''payment'' \<longrightarrow>
      snd (get_payment self t payment_id) =
        Inl (Raised PaymentError (''Payment '' @ payment_id @ '' not found''))) \<and>
   (t (get_receipt_request self receipt_id) = Inr (JObj kvs) \<and>
      absent_or_falsy kvs ''receipt'' \<longrightarrow>
      snd (get_receipt self t receipt_id) =
        Inl (Raised PaymentError (''Receipt '' @ receipt_id @ '' not found''))) \<and>
   (t (get_dispute_request self dispute_id) = Inr (JObj kvs) \<and>
      absent_or_falsy kvs ''dispute'' \<longrightarrow>
      snd (get_dispute self t dispute_id) =
        Inl (Raised DisputeError (''Dispute '' @ dispute_id @ '' not found''))) \<and>
   (t (open_dispute_request self payment_id reason evidence) = Inr (JObj kvs) \<and>
      absent_or_falsy kvs ''dispute'' \<longrightarrow>
      snd (open_dispute self t payment_id reason evidence) =
        Inl (Raised DisputeError ''Invalid response: missing dispute data'')) \<and>
   (t (register_webhook_request self webhook_url events) = Inr (JObj kvs) \<and>
      absent_or_falsy kvs ''webhook'' \<longrightarrow>
      snd (register_webhook self t webhook_url events) =
        Inl (Raised WebhookError ''Invalid response: missing webhook data'')) \<and>
   (t (update_webhook_request self webhook_id new_url new_events active) = Inr (JObj kvs) \<and>
      absent_or_falsy kvs ''webhook'' \<longrightarrow>
      snd (update_webhook self t webhook_id new_url new_events active) =
        Inl (Raised WebhookError ''Invalid response: missing webhook data'')) \<and>
   (t (get_reputation_request self agent) = Inr (JObj kvs) \<and>
      absent_or_falsy kvs ''reputation'' \<longrightarrow>
      snd (get_reputation self t agent) =
        Inl (Raised AgentPayError (''Reputation for agent '' @ agent @ '' not found''))) \<and>
   list_all is_domain_error
     [WalletError, ServiceError, PaymentError, DisputeError, WebhookError, AgentPayError] \<and>
   absent_or_falsy [(''k'', JObj [])] ''k'' \<and> absent_or_falsy [(''k'', JNull)] ''k'' \<and>
   absent_or_falsy [(''k'', JStr '''')] ''k'' \<and> absent_or_falsy [] ''k''"
proof (intro conjI impI)
  assume "t (get_wallet_request self wallet_id) = Inr (JObj kvs) \<and> absent_or_falsy kvs ''wallet''"
  then show "snd (get_wallet self t wallet_id) =
        Inl (Raised WalletError (''Wallet '' @ wallet_id @ '' not found''))"
    by (simp add: get_wallet_top)
next
  assume "t (create_wallet_request self) = Inr (JObj kvs) \<and> absent_or_falsy kvs ''wallet''"
  then show "snd (create_wallet self t) =
        Inl (Raised WalletError ''Invalid response: missing wallet data'')"
    by (simp add: create_wallet_top)
next
  assume "t (get_service_request self service_id) = Inr (JObj kvs) \<and>
      absent_or_falsy kvs ''service''"
  then show "snd (get_service self t service_id) =
        Inl (Raised ServiceError (''Service '' @ service_id @ '' not found''))"
    by (simp add: get_service_reply)
next
  assume "t (register_service_request uu self agent_id name description price endpoint category
         currency method timeout dispute_window input_schema output_schema) = Inr (JObj kvs) \<and>
      absent_or_falsy kvs ''service''"
  then show "snd (register_service uu self t agent_id name description price endpoint category
             currency method timeout dispute_window input_schema output_schema) =
        Inl (Raised ServiceError ''Invalid response: missing service data'')"
    by (simp add: register_service_reply)
next
  assume "t (get_payment_request self payment_id) = Inr (JObj kvs) \<and>
      absent_or_falsy kvs ''payment''"
  then show "snd (get_payment self t payment_id) =
        Inl (Raised PaymentError (''Payment '' @ payment_id @ '' not found''))"
    by (simp add: get_payment_reply)
next
  assume "t (get_receipt_request self receipt_id) = Inr (JObj kvs) \<and>
      absent_or_falsy kvs ''receipt''"
  then show "snd (get_receipt self t receipt_id) =
        Inl (Raised PaymentError (''Receipt '' @ receipt_id @ '' not found''))"
    by (simp add: get_receipt_reply)
next
  assume "t (get_dispute_request self dispute_id) = Inr (JObj kvs) \<and>
      absent_or_falsy kvs ''dispute''"
  then show "snd (get_dispute self t dispute_id) =
        Inl (Raised DisputeError (''Dispute '' @ dispute_id @ '' not found''))"
    by (simp add: get_dispute_reply)
next
  assume "t (open_dispute_request self payment_id reason evidence) = Inr (JObj kvs) \<and>
      absent_or_falsy kvs ''dispute''"
  then show "snd (open_dispute self t payment_id reason evidence) =
        Inl (Raised DisputeError ''Invalid response: missing dispute data'')"
    by (simp add: open_dispute_reply)
next
  assume "t (register_webhook_request self webhook_url events) = Inr (JObj kvs) \<and>
      absent_or_falsy kvs ''webhook''"
  then show "snd (register_webhook self t webhook_url events) =
        Inl (Raised WebhookError ''Invalid response: missing webhook data'')"
    by (simp add: register_webhook_reply)
next
  assume "t (update_webhook_request self webhook_id new_url new_events active) = Inr (JObj kvs) \<and>
      absent_or_falsy kvs ''webhook''"
  then show "snd (update_webhook self t webhook_id new_url new_events active) =
        Inl (Raised WebhookError ''Invalid response: missing webhook data'')"
    by (simp add: update_webhook_reply)
next
  assume "t (get_reputation_request self agent) = Inr (JObj kvs) \<and>
      absent_or_falsy kvs ''reputation''"
  then show "snd (get_reputation self t agent) =
        Inl (Raised AgentPayError (''Reputation for agent '' @ agent @ '' not found''))"
    by (simp add: get_reputation_top)
qed (simp_all add: absent_or_falsy_def)


theorem falsy_success_key_as_absent_witness:
  "snd (get_wallet (AgentPayClient ''http://localhost:3100'' None)
     (\<lambda>req. Inr (JObj [(''wallet'', JObj []), (''service'', JNull), (''payment'', JStr ''''),
        (''receipt'', JObj []), (''dispute'', JNull), (''webhook'', JStr ''''),
        (''reputation'', JObj [])])) ''w1'') = Inl (Raised WalletError ''Wallet w1 not found'') \<and>
   snd (get_service (AgentPayClient ''http://localhost:3100'' None)
     (\<lambda>req. Inr (JObj [(''wallet'', JObj []), (''service'', JNull), (''payment'', JStr ''''),
        (''receipt'', JObj []), (''dispute'', JNull), (''webhook'', JStr ''''),
        (''reputation'', JObj [])])) ''s1'') = Inl (Raised ServiceError ''Service s1 not found'') \<and>
   snd (get_payment (AgentPayClient ''http://localhost:3100'' None)
     (\<lambda>req. Inr (JObj [(''wallet'', JObj []), (''service'', JNull), (''payment'', JStr ''''),
        (''receipt'', JObj []), (''dispute'', JNull), (''webhook'', JStr ''''),
        (''reputation'', JObj [])])) ''p1'') = Inl (Raised PaymentError ''Payment p1 not found'') \<and>
   snd (get_receipt (AgentPayClient ''http://localhost:3100'' None)
     (\<lambda>req. Inr (JObj [(''wallet'', JObj []), (''service'', JNull), (''payment'', JStr ''''),
        (''receipt'', JObj []), (''dispute'', JNull), (''webhook'', JStr ''''),
        (''reputation'', JObj [])])) ''r1'') = Inl (Raised PaymentError ''Receipt r1 not found'') \<and>
   snd (get_dispute (AgentPayClient ''http://localhost:3100'' None)
     (\<lambda>req. Inr (JObj [(''wallet'', JObj []), (''service'', JNull), (''payment'', JStr ''''),
        (''receipt'', JObj []), (''dispute'', JNull), (''webhook'', JStr ''''),
        (''reputation'', JObj [])])) ''d1'') = Inl (Raised DisputeError ''Dispute d1 not found'') \<and>
   snd (get_reputation (AgentPayClient ''http://localhost:3100'' None)
     (\<lambda>req. Inr (JObj [(''wallet'', JObj []), (''service'', JNull), (''payment'', JStr ''''),
        (''receipt'', JObj []), (''dispute'', JNull), (''webhook'', JStr ''''),
        (''reputation'', JObj [])])) ''a1'') =
     Inl (Raised AgentPayError ''Reputation for agent a1 not found'')"
proof -
  let ?kvs = "[(''wallet'', JObj []), (''service'', JNull), (''payment'', JStr ''''),
        (''receipt'', JObj []), (''dispute'', JNull), (''webhook'', JStr ''''),
        (''reputation'', JObj [])]"
  have f: "absent_or_falsy ?kvs ''wallet''" "absent_or_falsy ?kvs ''service''"
    "absent_or_falsy ?kvs ''payment''" "absent_or_falsy ?kvs ''receipt''"
    "absent_or_falsy ?kvs ''dispute''" "absent_or_falsy ?kvs ''reputation''"
    by (simp_all add: absent_or_falsy_def)
  show ?thesis
    using falsy_success_key_as_absent
      [where t = "\<lambda>req. Inr (JObj ?kvs)" and kvs = ?kvs
         and self = "AgentPayClient ''http://localhost:3100'' None"
         and wallet_id = "''w1''" and service_id = "''s1''" and payment_id = "''p1''"
         and receipt_id = "''r1''" and dispute_id = "''d1''" and agent = "''a1''"]
    by (simp only: f simp_thms append.simps)
qed


section \<open>Transport failures\<close>

lemma get_webhook_handlers_WebhookError [simp]:
  "get_webhook_handlers (Inl (Raised WebhookError m)) = Inl (Raised WebhookError m)"
  by (simp add: get_webhook_handlers_def)

lemma get_webhook_handlers_Inr [simp]: "get_webhook_handlers (Inr v) = Inr v"
  by (simp add: get_webhook_handlers_def)

lemma get_webhook_snd:
  "snd (get_webhook self t webhook_id) =
     get_webhook_handlers
       (andThen (snd (list_webhooks self t)) (\<lambda>webhooks.
          case scan_webhooks webhook_id webhooks of
            Some webhook \<Rightarrow> Inr webhook
          | None \<Rightarrow> Inl (Raised WebhookError (''Webhook '' @ webhook_id @ '' not found''))))"
  by (simp add: get_webhook_def split: prod.splits)

lemma get_webhook_fst: "fst (get_webhook self t webhook_id) = fst (list_webhooks self t)"
  by (simp add: get_webhook_def split: prod.splits)

lemma list_webhooks_fst: "fst (list_webhooks self t) = [list_webhooks_request self]"
  by (simp add: list_webhooks_def Let_def)

text \<open>
  The handlers name \<^verbatim>\<open>requests.RequestException\<close> only. When the transport fails on the
  request of a call with an exception of that class or of one of its subclasses, the call
  raises the error class of its group, and the message is the call's own prefix followed
  by \<^verbatim>\<open>str(e)\<close>. \<^verbatim>\<open>get_balance\<close> fails as its \<^verbatim>\<open>get_wallet\<close> does and
  \<^verbatim>\<open>get_webhook\<close> as its \<^verbatim>\<open>list_webhooks\<close> does; \<^verbatim>\<open>get_reputation\<close> has no group
  and raises the base class.
\<close>

lemma transport_failure_wrapped:
  assumes "is_RequestException c"
  shows
  "(t (create_wallet_request self) = Inl (Raised c m) \<longrightarrow>
      snd (create_wallet self t) =
        Inl (Raised WalletError (''Failed to create wallet: '' @ m))) \<and>
   (t (get_wallet_request self wallet_id) = Inl (Raised c m) \<longrightarrow>
      snd (get_wallet self t wallet_id) =
        Inl (Raised WalletError (''Failed to get wallet: '' @ m))) \<and>
   (t (get_wallet_request self wallet_id) = Inl (Raised c m) \<longrightarrow>
      snd (get_balance uu self t wallet_id currency) =
        Inl (Raised WalletError (''Failed to get wallet: '' @ m))) \<and>
   (t (register_service_request uu self agent_id name description price endpoint category
         service_currency method timeout dispute_window input_schema output_schema) =
      Inl (Raised c m) \<longrightarrow>
      snd (register_service uu self t agent_id name description price endpoint category
             service_currency method timeout dispute_window input_schema output_schema) =
        Inl (Raised ServiceError (''Failed to register service: '' @ m))) \<and>
   (t (search_services_request str_float self keyword search_category max_price min_rating
         limit offset) = Inl (Raised c m) \<longrightarrow>
      snd (search_services str_float self t keyword search_category max_price min_rating
             limit offset) =
        Inl (Raised ServiceError (''Failed to search services: '' @ m))) \<and>
   (t (get_service_request self service_id) = Inl (Raised c m) \<longrightarrow>
      snd (get_service self t service_id) =
        Inl (Raised ServiceError (''Failed to get service: '' @ m))) \<and>
   (t (execute_request self service_id buyer_wallet_id input_data) = Inl (Raised c m) \<longrightarrow>
      snd (execute self t service_id buyer_wallet_id input_data) =
        Inl (Raised ExecutionError (''Service execution failed: '' @ m))) \<and>
   (t (get_payment_request self payment_id) = Inl (Raised c m) \<longrightarrow>
      snd (get_payment self t payment_id) =
        Inl (Raised PaymentError (''Failed to get payment: '' @ m))) \<and>
   (t (get_receipt_request self receipt_id) = Inl (Raised c m) \<longrightarrow>
      snd (get_receipt self t receipt_id) =
        Inl (Raised PaymentError (''Failed to get receipt: '' @ m))) \<and>
   (t (open_dispute_request self payment_id reason evidence) = Inl (Raised c m) \<longrightarrow>
      snd (open_dispute self t payment_id reason evidence) =
        Inl (Raised DisputeError (''Failed to open dispute: '' @ m))) \<and>
   (t (get_dispute_request self dispute_id) = Inl (Raised c m) \<longrightarrow>
      snd (get_dispute self t dispute_id) =
        Inl (Raised DisputeError (''Failed to get dispute: '' @ m))) \<and>
   (t (get_payment_disputes_request self) = Inl (Raised c m) \<longrightarrow>
      snd (get_payment_disputes self t payment_id) =
        Inl (Raised DisputeError (''Failed to get payment disputes: '' @ m))) \<and>
   (t (register_webhook_request self webhook_url events) = Inl (Raised c m) \<longrightarrow>
      snd (register_webhook self t webhook_url events) =
        Inl (Raised WebhookError (''Failed to register webhook: '' @ m))) \<and>
   (t (list_webhooks_request self) = Inl (Raised c m) \<longrightarrow>
      snd (list_webhooks self t) =
        Inl (Raised WebhookError (''Failed to list webhooks: '' @ m))) \<and>
   (t (list_webhooks_request self) = Inl (Raised c m) \<longrightarrow>
      snd (get_webhook self t webhook_id) =
        Inl (Raised WebhookError (''Failed to list webhooks: '' @ m))) \<and>
   (t (delete_webhook_request self webhook_id) = Inl (Raised c m) \<longrightarrow>
      snd (delete_webhook self t webhook_id) =
        Inl (Raised WebhookError (''Failed to delete webhook: '' @ m))) \<and>
   (t (update_webhook_request self webhook_id new_url new_events active) =
      Inl (Raised c m) \<longrightarrow>
      snd (update_webhook self t webhook_id new_url new_events active) =
        Inl (Raised WebhookError (''Failed to update webhook: '' @ m))) \<and>
   (t (get_reputation_request self agent) = Inl (Raised c m) \<longrightarrow>
      snd (get_reputation self t agent) =
        Inl (Raised AgentPayError (''Failed to get reputation: '' @ m))) \<and>
   list_all (\<lambda>C. is_domain_error C \<and> \<not> is_RequestException C)
     [WalletError, ServiceError, ExecutionError, PaymentError, DisputeError, WebhookError,
      AgentPayError]"
proof -
  have [simp]: "is_RequestException c" by (rule assms)
  show ?thesis
    by (intro conjI impI)
       (simp_all add: create_wallet_def get_wallet_def get_balance_snd register_service_def
          search_services_def get_service_def execute_def get_payment_def get_receipt_def
          open_dispute_def get_dispute_def get_payment_disputes_def register_webhook_def
          list_webhooks_def get_webhook_snd delete_webhook_def update_webhook_def
          get_reputation_def Let_def)
qed

text \<open>
  An exception of another class raised by the transport leaves the call as it is.
\<close>

lemma create_wallet_other_exception:
  assumes "\<not> is_RequestException c" and "t (create_wallet_request self) = Inl (Raised c m)"
  shows "snd (create_wallet self t) = Inl (Raised c m)"
  using assms by (simp add: create_wallet_def Let_def)

text \<open>
  Claim C2 is what the tests of the repository require, and the code breaks it. The tests
  \<^verbatim>\<open>test_wallet_error\<close> and \<^verbatim>\<open>test_service_error\<close> make \<^verbatim>\<open>requests.post\<close> raise \<^verbatim>\<open>Exception("Network error")\<close>
  and \<^verbatim>\<open>Exception("API error")\<close>, and expect \<open>WalletError\<close> from \<^verbatim>\<open>create_wallet\<close>
  and \<open>ServiceError\<close> from \<^verbatim>\<open>register_service\<close>. The code evaluated at these two inputs
  lets the raw exception reach the caller: it is not wrapped, and what is raised is not a
  domain error.
\<close>

theorem bare_exception_reaches_caller:
  "snd (create_wallet (AgentPayClient ''http://localhost:3100'' None)
          (\<lambda>req. Inl (Raised PyException ''Network error''))) =
     Inl (Raised PyException ''Network error'') \<and>
   snd (register_service (\<lambda>s. s) (AgentPayClient ''http://localhost:3100'' None)
          (\<lambda>req. Inl (Raised PyException ''API error''))
          ''wallet_123'' ''Test'' ''Test'' 100 ''https://test.com'' ''test'' ''BSV'' ''POST''
          30 30 JNull JNull) =
     Inl (Raised PyException ''API error'') \<and>
   snd (create_wallet (AgentPayClient ''http://localhost:3100'' None)
          (\<lambda>req. Inl (Raised PyException ''Network error''))) \<noteq>
     Inl (Raised WalletError (''Failed to create wallet: '' @ ''Network error'')) \<and>
   \<not> is_domain_error PyException"
  by (simp add: create_wallet_def register_service_def Let_def)

section \<open>The requests that the calls send\<close>

lemma sent_requests:
  "fst (create_wallet self t) = [create_wallet_request self]"
  "fst (get_wallet self t wallet_id) = [get_wallet_request self wallet_id]"
  "fst (get_balance uu self t wallet_id currency) = [get_wallet_request self wallet_id]"
  "fst (register_service uu self t agent_id name description price endpoint category
          service_currency method timeout dispute_window input_schema output_schema) =
     [register_service_request uu self agent_id name description price endpoint category
        service_currency method timeout dispute_window input_schema output_schema]"
  "fst (search_services str_float self t keyword search_category max_price min_rating
          limit offset) =
     [search_services_request str_float self keyword search_category max_price min_rating
        limit offset]"
  "fst (get_service self t service_id) = [get_service_request self service_id]"
  "fst (execute self t service_id buyer_wallet_id input_data) =
     [execute_request self service_id buyer_wallet_id input_data]"
  "fst (get_payment self t payment_id) = [get_payment_request self payment_id]"
  "fst (get_receipt self t receipt_id) = [get_receipt_request self receipt_id]"
  "fst (open_dispute self t payment_id reason evidence) =
     [open_dispute_request self payment_id reason evidence]"
  "fst (get_dispute self t dispute_id) = [get_dispute_request self dispute_id]"
  "fst (get_payment_disputes self t payment_id) = [get_payment_disputes_request self]"
  "fst (add_dispute_evidence self t dispute_id evidence_text) = []"
  "fst (register_webhook self t webhook_url events) =
     [register_webhook_request self webhook_url events]"
  "fst (list_webhooks self t) = [list_webhooks_request self]"
  "fst (get_webhook self t webhook_id) = [list_webhooks_request self]"
  "fst (delete_webhook self t webhook_id) = [delete_webhook_request self webhook_id]"
  "fst (update_webhook self t webhook_id new_url new_events active) =
     [update_webhook_request self webhook_id new_url new_events active]"
  "fst (get_reputation self t agent) = [get_reputation_request self agent]"
  by (simp_all add: create_wallet_def get_wallet_def get_balance_fst register_service_def
      search_services_def get_service_def execute_def get_payment_def get_receipt_def
      open_dispute_def get_dispute_def get_payment_disputes_def add_dispute_evidence_def
      add_evidence_def register_webhook_def list_webhooks_def get_webhook_fst
      delete_webhook_def update_webhook_def get_reputation_def Let_def)

lemma request_headers:
  "headers (create_wallet_request self) = wallet_get_headers self"
  "headers (get_wallet_request self wallet_id) = wallet_get_headers self"
  "headers (register_service_request uu self agent_id name description price endpoint category
              service_currency method timeout dispute_window input_schema output_schema) =
     service_get_headers self"
  "headers (search_services_request str_float self keyword search_category max_price
              min_rating limit offset) = service_get_headers self"
  "headers (get_service_request self service_id) = service_get_headers self"
  "headers (execute_request self service_id buyer_wallet_id input_data) =
     payment_get_headers self"
  "headers (get_payment_request self payment_id) = payment_get_headers self"
  "headers (get_receipt_request self receipt_id) = payment_get_headers self"
  "headers (open_dispute_request self payment_id reason evidence) = dispute_get_headers self"
  "headers (get_dispute_request self dispute_id) = dispute_get_headers self"
  "headers (get_payment_disputes_request self) = dispute_get_headers self"
  "headers (register_webhook_request self webhook_url events) = webhook_get_headers self"
  "headers (list_webhooks_request self) = webhook_get_headers self"
  "headers (delete_webhook_request self webhook_id) = webhook_get_headers self"
  "headers (update_webhook_request self webhook_id new_url new_events active) =
     webhook_get_headers self"
  by (simp_all add: create_wallet_request_def get_wallet_request_def
      register_service_request_def search_services_request_def get_service_request_def
      execute_request_def get_payment_request_def get_receipt_request_def
      open_dispute_request_def get_dispute_request_def get_payment_disputes_request_def
      register_webhook_request_def list_webhooks_request_def delete_webhook_request_def
      update_webhook_request_def Let_def)

lemma group_headers_with_key:
  assumes "api_key self = Some k" and "k \<noteq> []"
  shows "wallet_get_headers self =
           [(''Content-Type'', ''application/json''), (''Authorization'', ''Bearer '' @ k)]"
    and "service_get_headers self =
           [(''Content-Type'', ''application/json''), (''Authorization'', ''Bearer '' @ k)]"
    and "payment_get_headers self =
           [(''Content-Type'', ''application/json''), (''Authorization'', ''Bearer '' @ k),
            (''x-api-key'', k)]"
    and "dispute_get_headers self =
           [(''Content-Type'', ''application/json''), (''Authorization'', ''Bearer '' @ k),
            (''x-api-key'', k)]"
    and "webhook_get_headers self =
           [(''Content-Type'', ''application/json''), (''Authorization'', ''Bearer '' @ k),
            (''x-api-key'', k)]"
    and "headers (get_reputation_request self agent) =
           [(''Content-Type'', ''application/json''), (''Authorization'', ''Bearer '' @ k)]"
  using assms
  by (simp_all add: wallet_get_headers_def service_get_headers_def payment_get_headers_def
      dispute_get_headers_def webhook_get_headers_def get_reputation_request_def
      has_api_key_def Let_def)

lemma group_headers_without_key:
  assumes "\<not> has_api_key self"
  shows "wallet_get_headers self = [(''Content-Type'', ''application/json'')]"
    and "service_get_headers self = [(''Content-Type'', ''application/json'')]"
    and "payment_get_headers self = [(''Content-Type'', ''application/json'')]"
    and "dispute_get_headers self = [(''Content-Type'', ''application/json'')]"
    and "webhook_get_headers self = [(''Content-Type'', ''application/json'')]"
    and "headers (get_reputation_request self agent) =
           [(''Content-Type'', ''application/json'')]"
  using assms
  by (simp_all add: wallet_get_headers_def service_get_headers_def payment_get_headers_def
      dispute_get_headers_def webhook_get_headers_def get_reputation_request_def Let_def)

text \<open>
  Claim C9. Take the requests sent by the calls of the wallet and service groups (and by
  \<^verbatim>\<open>get_reputation\<close>), seven in all, and those sent by the calls of the payment, dispute
  and webhook groups, eleven in all (\<^verbatim>\<open>add_dispute_evidence\<close> sends none). With a
  non-empty key \<open>k\<close> configured, each of the former carries exactly the JSON content type
  and \<open>Authorization: Bearer k\<close>, and each of the latter carries these two and
  \<open>x-api-key: k\<close>. With no key (or an empty one, which \<^verbatim>\<open>if self.api_key\<close> treats alike)
  every request carries the content type only.
\<close>

theorem auth_headers_by_group:
  "(let bearer_only =
          fst (create_wallet self t) @ fst (get_wallet self t wallet_id) @
          fst (get_balance uu self t wallet_id currency) @
          fst (register_service uu self t agent_id name description price endpoint category
                 service_currency method timeout dispute_window input_schema output_schema) @
          fst (search_services str_float self t keyword search_category max_price min_rating
                 limit offset) @
          fst (get_service self t service_id) @ fst (get_reputation self t agent);
        dual =
          fst (execute self t service_id buyer_wallet_id input_data) @
          fst (get_payment self t payment_id) @ fst (get_receipt self t receipt_id) @
          fst (open_dispute self t payment_id reason evidence) @
          fst (get_dispute self t dispute_id) @ fst (get_payment_disputes self t payment_id) @
          fst (add_dispute_evidence self t dispute_id evidence_text) @
          fst (register_webhook self t webhook_url events) @ fst (list_webhooks self t) @
          fst (get_webhook self t webhook_id) @ fst (delete_webhook self t webhook_id) @
          fst (update_webhook self t webhook_id new_url new_events active)
    in length bearer_only = 7 \<and> length dual = 11 \<and>
       (api_key self = Some k \<and> k \<noteq> [] \<longrightarrow>
          list_all (\<lambda>r. headers r =
              [(''Content-Type'', ''application/json''), (''Authorization'', ''Bearer '' @ k)])
            bearer_only \<and>
          list_all (\<lambda>r. headers r =
              [(''Content-Type'', ''application/json''), (''Authorization'', ''Bearer '' @ k),
               (''x-api-key'', k)])
            dual) \<and>
       (\<not> has_api_key self \<longrightarrow>
          list_all (\<lambda>r. headers r = [(''Content-Type'', ''application/json'')])
            (bearer_only @ dual)))"
  unfolding Let_def sent_requests
  by (simp add: request_headers group_headers_with_key group_headers_without_key)

theorem auth_headers_by_group_witness:
  "map headers (fst (create_wallet (AgentPayClient ''https://api.agentspay.io'' (Some ''test-key''))
                       (\<lambda>req. Inr JNull))) =
     [[(''Content-Type'', ''application/json''), (''Authorization'', ''Bearer test-key'')]] \<and>
   map headers (fst (get_dispute (AgentPayClient ''https://api.agentspay.io'' (Some ''test-key''))
                       (\<lambda>req. Inr JNull) ''d1'')) =
     [[(''Content-Type'', ''application/json''), (''Authorization'', ''Bearer test-key''),
       (''x-api-key'', ''test-key'')]] \<and>
   map headers (fst (get_dispute (AgentPayClient ''https://api.agentspay.io'' None)
                       (\<lambda>req. Inr JNull) ''d1'')) =
     [[(''Content-Type'', ''application/json'')]]"
proof -
  have k: "api_key (AgentPayClient ''https://api.agentspay.io'' (Some ''test-key'')) =
             Some ''test-key'' \<and> ''test-key'' \<noteq> []"
    by (simp add: AgentPayClient_def)
  have n: "\<not> has_api_key (AgentPayClient ''https://api.agentspay.io'' None)"
    by (simp add: AgentPayClient_def has_api_key_def)
  show ?thesis
    using auth_headers_by_group
      [where self = "AgentPayClient ''https://api.agentspay.io'' (Some ''test-key'')"
         and k = "''test-key''" and t = "\<lambda>req. Inr JNull" and dispute_id = "''d1''"]
      auth_headers_by_group
      [where self = "AgentPayClient ''https://api.agentspay.io'' None"
         and t = "\<lambda>req. Inr JNull" and dispute_id = "''d1''"]
    unfolding Let_def sent_requests
    by (simp add: k n)
qed


section \<open>Looking a webhook up\<close>

lemma scan_webhooks_find:
  "scan_webhooks webhook_id webhooks = find (\<lambda>w. id_webhook w = JStr webhook_id) webhooks"
  by (induction webhooks) simp_all

text \<open>
  Claim C7. \<^verbatim>\<open>get_webhook(id)\<close> sends exactly the request of \<^verbatim>\<open>list_webhooks\<close>, a
  \<open>GET\<close> of the collection \<open>/api/webhooks\<close> in which the id does not occur. When the
  listing yields the webhooks \<open>ws\<close>, the result is the first webhook of \<open>ws\<close> whose id is
  the requested one, and \<open>WebhookError\<close> (not found), a domain error, when \<open>ws\<close> has none.
\<close>

theorem get_webhook_lists_then_scans:
  "fst (get_webhook self t webhook_id) = fst (list_webhooks self t) \<and>
   fst (list_webhooks self t) =
     [\<lparr>http_method = ''GET'', url = base_url self @ ''/api/webhooks'', params = [],
       json_body = None, headers = webhook_get_headers self\<rparr>] \<and>
   (snd (list_webhooks self t) = Inr ws \<longrightarrow>
      snd (get_webhook self t webhook_id) =
        (case find (\<lambda>w. id_webhook w = JStr webhook_id) ws of
           Some w \<Rightarrow> Inr w
         | None \<Rightarrow> Inl (Raised WebhookError (''Webhook '' @ webhook_id @ '' not found'')))) \<and>
   is_domain_error WebhookError"
  by (auto simp: get_webhook_fst get_webhook_snd list_webhooks_fst list_webhooks_request_def
      scan_webhooks_find split: option.splits)

theorem get_webhook_lists_then_scans_witness:
  "snd (get_webhook (AgentPayClient ''http://localhost:3100'' None)
     (\<lambda>req. Inr (JObj [(''webhooks'', JList
        [JObj [(''id'', JStr ''h1''), (''url'', JStr ''https://a.example/hook''),
               (''events'', JList [JStr ''payment.completed'']), (''active'', JBool True),
               (''createdAt'', JStr ''2026-02-14T12:00:00Z'')],
         JObj [(''id'', JStr ''h2''), (''url'', JStr ''https://b.example/hook''),
               (''events'', JList [JStr ''dispute.opened'']), (''active'', JBool False),
               (''createdAt'', JStr ''2026-02-15T12:00:00Z''), (''secret'', JStr ''s'')],
         JObj [(''id'', JStr ''h2''), (''url'', JStr ''https://c.example/hook''),
               (''events'', JList []), (''active'', JBool True),
               (''createdAt'', JStr ''2026-02-16T12:00:00Z'')]])])) ''h2'') =
     Inr \<lparr>id_webhook = JStr ''h2'', url_webhook = JStr ''https://b.example/hook'',
          events_webhook = JList [JStr ''dispute.opened''], active_webhook = JBool False,
          created_at_webhook = JStr ''2026-02-15T12:00:00Z'', secret_webhook = JStr ''s''\<rparr> \<and>
   snd (get_webhook (AgentPayClient ''http://localhost:3100'' None)
     (\<lambda>req. Inr (JObj [(''webhooks'', JList
        [JObj [(''id'', JStr ''h1''), (''url'', JStr ''https://a.example/hook''),
               (''events'', JList [JStr ''payment.completed'']), (''active'', JBool True),
               (''createdAt'', JStr ''2026-02-14T12:00:00Z'')],
         JObj [(''id'', JStr ''h2''), (''url'', JStr ''https://b.example/hook''),
               (''events'', JList [JStr ''dispute.opened'']), (''active'', JBool False),
               (''createdAt'', JStr ''2026-02-15T12:00:00Z''), (''secret'', JStr ''s'')],
         JObj [(''id'', JStr ''h2''), (''url'', JStr ''https://c.example/hook''),
               (''events'', JList []), (''active'', JBool True),
               (''createdAt'', JStr ''2026-02-16T12:00:00Z'')]])])) ''h9'') =
     Inl (Raised WebhookError ''Webhook h9 not found'')"
proof -
  let ?t = "\<lambda>req::request. (Inr (JObj [(''webhooks'', JList
        [JObj [(''id'', JStr ''h1''), (''url'', JStr ''https://a.example/hook''),
               (''events'', JList [JStr ''payment.completed'']), (''active'', JBool True),
               (''createdAt'', JStr ''2026-02-14T12:00:00Z'')],
         JObj [(''id'', JStr ''h2''), (''url'', JStr ''https://b.example/hook''),
               (''events'', JList [JStr ''dispute.opened'']), (''active'', JBool False),
               (''createdAt'', JStr ''2026-02-15T12:00:00Z''), (''secret'', JStr ''s'')],
         JObj [(''id'', JStr ''h2''), (''url'', JStr ''https://c.example/hook''),
               (''events'', JList []), (''active'', JBool True),
               (''createdAt'', JStr ''2026-02-16T12:00:00Z'')]])]) :: json result)"
  let ?ws = "[\<lparr>id_webhook = JStr ''h1'', url_webhook = JStr ''https://a.example/hook'',
          events_webhook = JList [JStr ''payment.completed''], active_webhook = JBool True,
          created_at_webhook = JStr ''2026-02-14T12:00:00Z'', secret_webhook = JNull\<rparr>,
        \<lparr>id_webhook = JStr ''h2'', url_webhook = JStr ''https://b.example/hook'',
          events_webhook = JList [JStr ''dispute.opened''], active_webhook = JBool False,
          created_at_webhook = JStr ''2026-02-15T12:00:00Z'', secret_webhook = JStr ''s''\<rparr>,
        \<lparr>id_webhook = JStr ''h2'', url_webhook = JStr ''https://c.example/hook'',
          events_webhook = JList [], active_webhook = JBool True,
          created_at_webhook = JStr ''2026-02-16T12:00:00Z'', secret_webhook = JNull\<rparr>]"
  have l: "snd (list_webhooks (AgentPayClient ''http://localhost:3100'' None) ?t) = Inr ?ws"
    by (simp add: list_webhooks_def Let_def parse_webhook_def)
  show ?thesis
    using get_webhook_lists_then_scans
            [of "AgentPayClient ''http://localhost:3100'' None" ?t "''h2''" ?ws]
          get_webhook_lists_then_scans
            [of "AgentPayClient ''http://localhost:3100'' None" ?t "''h9''" ?ws]
    by (simp add: l)
qed


section \<open>The disputes of a payment\<close>

lemma filter_result_total:
  assumes "\<And>x. x \<in> set xs \<Longrightarrow> \<exists>b. p x = Inr b"
  shows "filter_result p xs = Inr (filter (\<lambda>x. p x = Inr True) xs)"
  using assms
proof (induction xs)
  case Nil
  show ?case by simp
next
  case (Cons x xs)
  from Cons.prems obtain b where b: "p x = Inr b" by auto
  have "filter_result p xs = Inr (filter (\<lambda>x. p x = Inr True) xs)"
    using Cons.prems by (intro Cons.IH) simp
  with b show ?case by simp
qed

lemma map_result_Inr:
  "map_result f xs = Inr ys \<Longrightarrow> list_all2 (\<lambda>x y. f x = Inr y) xs ys"
proof (induction xs arbitrary: ys)
  case Nil
  then show ?case by simp
next
  case (Cons x xs)
  then show ?case by (auto simp: andThen_eq_Inr)
qed

lemma map_result_total:
  assumes "\<And>x. x \<in> set xs \<Longrightarrow> \<exists>y. f x = Inr y"
  shows "\<exists>ys. map_result f xs = Inr ys"
  using assms
proof (induction xs)
  case Nil
  show ?case by simp
next
  case (Cons x xs)
  from Cons.prems obtain y where y: "f x = Inr y" by auto
  have "\<exists>ys. map_result f xs = Inr ys"
    using Cons.prems by (intro Cons.IH) simp
  with y show ?case by auto
qed

lemma map_result_Inl:
  "map_result f xs = Inl e \<Longrightarrow> \<exists>x \<in> set xs. f x = Inl e"
proof (induction xs)
  case Nil
  then show ?case by simp
next
  case (Cons x xs)
  then show ?case by (auto simp: andThen_eq_Inl)
qed

lemma list_all2_source:
  "list_all2 P xs ys \<Longrightarrow> y \<in> set ys \<Longrightarrow> \<exists>x \<in> set xs. P x y"
  by (induction rule: list_all2_induct) auto

lemma except_map_parse_dispute [simp]:
  "except_RequestException C p (map_result parse_dispute xs) = map_result parse_dispute xs"
  by (rule except_RequestException_id)
     (auto dest!: map_result_Inl dest: parse_dispute_no_RequestException)

lemma get_payment_disputes_reply:
  assumes "t (get_payment_disputes_request self) = Inr (JObj kvs)"
    and "map_of kvs ''disputes'' = Some (JList ds)"
    and "\<forall>d \<in> set ds. \<exists>fs. d = JObj fs"
  shows "snd (get_payment_disputes self t payment_id) =
           map_result parse_dispute
             (filter (\<lambda>d. py_get d ''paymentId'' = Inr (JStr payment_id)) ds)"
proof -
  let ?p = "\<lambda>d. andThen (py_get d ''paymentId'') (\<lambda>v. Inr (v = JStr payment_id))"
  have total: "\<exists>b. ?p d = Inr b" if "d \<in> set ds" for d
    using that assms(3) by auto
  have same: "(?p d = Inr True) = (py_get d ''paymentId'' = Inr (JStr payment_id))"
    if "d \<in> set ds" for d
    using that assms(3) by auto
  have "filter_result ?p ds = Inr (filter (\<lambda>d. ?p d = Inr True) ds)"
    using total by (rule filter_result_total)
  also have "filter (\<lambda>d. ?p d = Inr True) ds =
             filter (\<lambda>d. py_get d ''paymentId'' = Inr (JStr payment_id)) ds"
    using same by (intro filter_cong) simp_all
  finally show ?thesis
    using assms(1,2) by (simp add: get_payment_disputes_def Let_def)
qed

lemma parsed_dispute_payment_id:
  assumes "parse_dispute d = Inr r" and "py_get d ''paymentId'' = Inr (JStr payment_id)"
  shows "payment_id_dispute r = JStr payment_id"
proof (cases "\<exists>fs. d = JObj fs")
  case True
  then obtain fs where d: "d = JObj fs" by blast
  from assms(1) have "map_of fs ''paymentId'' = Some (payment_id_dispute r)"
    unfolding d by (simp add: parse_dispute_fields)
  with assms(2) show ?thesis unfolding d by simp
next
  case False
  with assms(1) show ?thesis by (simp add: parse_not_obj)
qed

text \<open>
  Claim C5. \<^verbatim>\<open>get_payment_disputes(payment_id)\<close> sends one \<open>GET\<close> of the whole
  collection \<open>/api/disputes\<close>, without query parameters or body, so no filter reaches the
  server. Let the reply hold, under \<open>disputes\<close>, a list \<open>ds\<close> of objects. Then the outcome
  is the parse, in order, of exactly the entries of \<open>ds\<close> whose \<open>paymentId\<close> is the
  requested id: whenever the call returns, the returned disputes correspond one to one to
  the matching entries and each has the requested payment id; and it does return when
  every matching entry parses, whatever the other entries are.
\<close>

theorem get_payment_disputes_filters_client_side:
  assumes "t (get_payment_disputes_request self) = Inr (JObj kvs)"
    and "map_of kvs ''disputes'' = Some (JList ds)"
    and "\<forall>d \<in> set ds. \<exists>fs. d = JObj fs"
  shows
  "fst (get_payment_disputes self t payment_id) =
     [\<lparr>http_method = ''GET'', url = base_url self @ ''/api/disputes'', params = [],
       json_body = None, headers = dispute_get_headers self\<rparr>] \<and>
   snd (get_payment_disputes self t payment_id) =
     map_result parse_dispute
       (filter (\<lambda>d. py_get d ''paymentId'' = Inr (JStr payment_id)) ds) \<and>
   (\<forall>rs. snd (get_payment_disputes self t payment_id) = Inr rs \<longrightarrow>
      list_all2 (\<lambda>d r. parse_dispute d = Inr r)
        (filter (\<lambda>d. py_get d ''paymentId'' = Inr (JStr payment_id)) ds) rs \<and>
      (\<forall>r \<in> set rs. payment_id_dispute r = JStr payment_id)) \<and>
   ((\<forall>d \<in> set ds. py_get d ''paymentId'' = Inr (JStr payment_id) \<longrightarrow>
        (\<exists>r. parse_dispute d = Inr r)) \<longrightarrow>
    (\<exists>rs. snd (get_payment_disputes self t payment_id) = Inr rs))"
proof -
  let ?m = "filter (\<lambda>d. py_get d ''paymentId'' = Inr (JStr payment_id)) ds"
  have res: "snd (get_payment_disputes self t payment_id) = map_result parse_dispute ?m"
    using assms by (rule get_payment_disputes_reply)
  have req: "fst (get_payment_disputes self t payment_id) =
     [\<lparr>http_method = ''GET'', url = base_url self @ ''/api/disputes'', params = [],
       json_body = None, headers = dispute_get_headers self\<rparr>]"
    by (simp add: get_payment_disputes_def get_payment_disputes_request_def Let_def)
  have exact: "list_all2 (\<lambda>d r. parse_dispute d = Inr r) ?m rs \<and>
               (\<forall>r \<in> set rs. payment_id_dispute r = JStr payment_id)"
    if "snd (get_payment_disputes self t payment_id) = Inr rs" for rs
  proof -
    from that res have l: "list_all2 (\<lambda>d r. parse_dispute d = Inr r) ?m rs"
      by (simp add: map_result_Inr)
    have "payment_id_dispute r = JStr payment_id" if "r \<in> set rs" for r
    proof -
      from l that obtain d where "d \<in> set ?m" and "parse_dispute d = Inr r"
        by (blast dest: list_all2_source)
      then show ?thesis by (auto intro: parsed_dispute_payment_id)
    qed
    with l show ?thesis by blast
  qed
  have returns: "\<exists>rs. snd (get_payment_disputes self t payment_id) = Inr rs"
    if "\<forall>d \<in> set ds. py_get d ''paymentId'' = Inr (JStr payment_id) \<longrightarrow>
          (\<exists>r. parse_dispute d = Inr r)"
    unfolding res using that by (intro map_result_total) auto
  from req res exact returns show ?thesis by blast
qed

theorem get_payment_disputes_filters_client_side_witness:
  "snd (get_payment_disputes (AgentPayClient ''http://localhost:3100'' None)
     (\<lambda>req. Inr (JObj [(''disputes'', JList
        [JObj [(''id'', JStr ''d1''), (''paymentId'', JStr ''p1''),
               (''buyerWalletId'', JStr ''w1''), (''providerWalletId'', JStr ''w2''),
               (''reason'', JStr ''no output''), (''status'', JStr ''open''),
               (''createdAt'', JStr ''2026-02-14T12:00:00Z'')],
         JObj [(''id'', JStr ''d2''), (''paymentId'', JStr ''p2''),
               (''buyerWalletId'', JStr ''w3''), (''providerWalletId'', JStr ''w2''),
               (''reason'', JStr ''late''), (''status'', JStr ''open''),
               (''createdAt'', JStr ''2026-02-15T12:00:00Z'')],
         JObj [(''id'', JStr ''d3''), (''paymentId'', JStr ''p1''),
               (''buyerWalletId'', JStr ''w1''), (''providerWalletId'', JStr ''w2''),
               (''reason'', JStr ''wrong output''), (''status'', JStr ''expired''),
               (''createdAt'', JStr ''2026-02-16T12:00:00Z''),
               (''evidence'', JStr ''log'')]])])) ''p1'') =
   Inr [\<lparr>id_dispute = JStr ''d1'', payment_id_dispute = JStr ''p1'',
          buyer_wallet_id_dispute = JStr ''w1'', provider_wallet_id_dispute = JStr ''w2'',
          reason_dispute = JStr ''no output'', status_dispute = JStr ''open'',
          created_at_dispute = JStr ''2026-02-14T12:00:00Z'', evidence_dispute = JNull,
          resolution_dispute = JNull, split_percent_dispute = JNull,
          resolved_at_dispute = JNull\<rparr>,
        \<lparr>id_dispute = JStr ''d3'', payment_id_dispute = JStr ''p1'',
          buyer_wallet_id_dispute = JStr ''w1'', provider_wallet_id_dispute = JStr ''w2'',
          reason_dispute = JStr ''wrong output'', status_dispute = JStr ''expired'',
          created_at_dispute = JStr ''2026-02-16T12:00:00Z'', evidence_dispute = JStr ''log'',
          resolution_dispute = JNull, split_percent_dispute = JNull,
          resolved_at_dispute = JNull\<rparr>]"
proof -
  let ?ds = "[JObj [(''id'', JStr ''d1''), (''paymentId'', JStr ''p1''),
               (''buyerWalletId'', JStr ''w1''), (''providerWalletId'', JStr ''w2''),
               (''reason'', JStr ''no output''), (''status'', JStr ''open''),
               (''createdAt'', JStr ''2026-02-14T12:00:00Z'')],
         JObj [(''id'', JStr ''d2''), (''paymentId'', JStr ''p2''),
               (''buyerWalletId'', JStr ''w3''), (''providerWalletId'', JStr ''w2''),
               (''reason'', JStr ''late''), (''status'', JStr ''open''),
               (''createdAt'', JStr ''2026-02-15T12:00:00Z'')],
         JObj [(''id'', JStr ''d3''), (''paymentId'', JStr ''p1''),
               (''buyerWalletId'', JStr ''w1''), (''providerWalletId'', JStr ''w2''),
               (''reason'', JStr ''wrong output''), (''status'', JStr ''expired''),
               (''createdAt'', JStr ''2026-02-16T12:00:00Z''),
               (''evidence'', JStr ''log'')]]"
  let ?kvs = "[(''disputes'', JList ?ds)]"
  have objs: "\<forall>d \<in> set ?ds. \<exists>fs. d = JObj fs" by simp
  have coll: "map_of ?kvs ''disputes'' = Some (JList ?ds)" by simp
  from get_payment_disputes_filters_client_side
         [where t = "\<lambda>req. Inr (JObj ?kvs)" and kvs = ?kvs and ds = ?ds
            and self = "AgentPayClient ''http://localhost:3100'' None"
            and payment_id = "''p1''", OF refl coll objs]
  have "snd (get_payment_disputes (AgentPayClient ''http://localhost:3100'' None)
               (\<lambda>req. Inr (JObj ?kvs)) ''p1'') =
        map_result parse_dispute
          (filter (\<lambda>d. py_get d ''paymentId'' = Inr (JStr ''p1'')) ?ds)"
    by blast
  also have "\<dots> = Inr [\<lparr>id_dispute = JStr ''d1'', payment_id_dispute = JStr ''p1'',
          buyer_wallet_id_dispute = JStr ''w1'', provider_wallet_id_dispute = JStr ''w2'',
          reason_dispute = JStr ''no output'', status_dispute = JStr ''open'',
          created_at_dispute = JStr ''2026-02-14T12:00:00Z'', evidence_dispute = JNull,
          resolution_dispute = JNull, split_percent_dispute = JNull,
          resolved_at_dispute = JNull\<rparr>,
        \<lparr>id_dispute = JStr ''d3'', payment_id_dispute = JStr ''p1'',
          buyer_wallet_id_dispute = JStr ''w1'', provider_wallet_id_dispute = JStr ''w2'',
          reason_dispute = JStr ''wrong output'', status_dispute = JStr ''expired'',
          created_at_dispute = JStr ''2026-02-16T12:00:00Z'', evidence_dispute = JStr ''log'',
          resolution_dispute = JNull, split_percent_dispute = JNull,
          resolved_at_dispute = JNull\<rparr>]"
    by (simp add: parse_dispute_def)
  finally show ?thesis .
qed


section \<open>Executing a service\<close>

lemma present_and_truthy_obj:
  "present_and_truthy k (JObj kvs) = Inr (\<not> absent_or_falsy kvs k)"
  by (cases "map_of kvs k") (simp_all add: present_and_truthy_def absent_or_falsy_def)

lemma execute_reply:
  assumes "t (execute_request self service_id buyer_wallet_id input_data) = Inr (JObj kvs)"
  shows "snd (execute self t service_id buyer_wallet_id input_data) =
     andThen (if absent_or_falsy kvs ''receipt'' then Inr None
              else andThen (parse_receipt (wire_field kvs ''receipt'' JNull))
                     (\<lambda>r. Inr (Some r))) (\<lambda>receipt.
     andThen (if absent_or_falsy kvs ''payment'' then Inr None
              else andThen (parse_payment (wire_field kvs ''payment'' JNull))
                     (\<lambda>p. Inr (Some p))) (\<lambda>payment.
     andThen (py_index (JObj kvs) ''paymentId'') (\<lambda>v_payment_id.
       Inr \<lparr>payment_id_result = v_payment_id,
            service_id_result = wire_field kvs ''serviceId'' (JStr service_id),
            output_result = wire_field kvs ''output'' (JObj []),
            execution_time_ms_result = wire_field kvs ''executionTimeMs'' (JInt 0),
            status_result = wire_field kvs ''status'' (JStr ''pending''),
            receipt_result = receipt, payment_result = payment\<rparr>)))"
    (is "_ = ?body")
proof -
  have idx: "py_index (JObj kvs) k = Inr (wire_field kvs k JNull)"
    if "\<not> absent_or_falsy kvs k" for k
    using that by (cases "map_of kvs k") (simp_all add: absent_or_falsy_def wire_field_def)
  have "snd (execute self t service_id buyer_wallet_id input_data) =
          except_RequestException ExecutionError ''Service execution failed: '' ?body"
    using assms
    by (simp add: execute_def Let_def present_and_truthy_obj idx py_get_default_obj
        del: py_index.simps py_get_default.simps)
  also have "\<dots> = ?body"
  proof (rule except_RequestException_id)
    fix c m
    assume "?body = Inl (Raised c m)"
    then show "\<not> is_RequestException c"
      by (auto simp: andThen_eq_Inl py_index_eq_Inl simp del: py_index.simps
          split: if_splits
          dest: parse_receipt_no_RequestException parse_payment_no_RequestException)
  qed
  finally show ?thesis .
qed

text \<open>
  Claim C8. Let the reply to \<^verbatim>\<open>execute\<close> be an object that carries \<open>paymentId\<close>. The
  receipt and the payment are handled one after the other, each on its own key. With
  both keys absent (or falsy) the call returns a result whose receipt and payment are
  \<^verbatim>\<open>None\<close>; with one absent and the other holding a value that parses, the call
  returns a result with that one parsed and the other \<^verbatim>\<open>None\<close>; with both holding
  values that parse, both are included. Conversely a returned result has a receipt only
  if the reply had a truthy \<open>receipt\<close> that parsed to it, and likewise for the payment.
\<close>

theorem execute_optional_receipt_and_payment:
  assumes "t (execute_request self service_id buyer_wallet_id input_data) = Inr (JObj kvs)"
    and "map_of kvs ''paymentId'' = Some pid"
  shows
  "(let bare = \<lparr>payment_id_result = pid,
                 service_id_result = wire_field kvs ''serviceId'' (JStr service_id),
                 output_result = wire_field kvs ''output'' (JObj []),
                 execution_time_ms_result = wire_field kvs ''executionTimeMs'' (JInt 0),
                 status_result = wire_field kvs ''status'' (JStr ''pending''),
                 receipt_result = None, payment_result = None\<rparr>
    in (absent_or_falsy kvs ''receipt'' \<and> absent_or_falsy kvs ''payment'' \<longrightarrow>
          snd (execute self t service_id buyer_wallet_id input_data) = Inr bare) \<and>
       (absent_or_falsy kvs ''receipt'' \<and>
        map_of kvs ''payment'' = Some pd \<and> truthy pd \<and> parse_payment pd = Inr p \<longrightarrow>
          snd (execute self t service_id buyer_wallet_id input_data) =
            Inr (bare\<lparr>payment_result := Some p\<rparr>)) \<and>
       (map_of kvs ''receipt'' = Some rd \<and> truthy rd \<and> parse_receipt rd = Inr r \<and>
        absent_or_falsy kvs ''payment'' \<longrightarrow>
          snd (execute self t service_id buyer_wallet_id input_data) =
            Inr (bare\<lparr>receipt_result := Some r\<rparr>)) \<and>
       (map_of kvs ''receipt'' = Some rd \<and> truthy rd \<and> parse_receipt rd = Inr r \<and>
        map_of kvs ''payment'' = Some pd \<and> truthy pd \<and> parse_payment pd = Inr p \<longrightarrow>
          snd (execute self t service_id buyer_wallet_id input_data) =
            Inr (bare\<lparr>receipt_result := Some r, payment_result := Some p\<rparr>)) \<and>
       (\<forall>res. snd (execute self t service_id buyer_wallet_id input_data) = Inr res \<longrightarrow>
          (case receipt_result res of
             None \<Rightarrow> absent_or_falsy kvs ''receipt''
           | Some r' \<Rightarrow> \<exists>rd'. map_of kvs ''receipt'' = Some rd' \<and> truthy rd' \<and>
                         parse_receipt rd' = Inr r') \<and>
          (case payment_result res of
             None \<Rightarrow> absent_or_falsy kvs ''payment''
           | Some p' \<Rightarrow> \<exists>pd'. map_of kvs ''payment'' = Some pd' \<and> truthy pd' \<and>
                         parse_payment pd' = Inr p')))"
proof -
  have present: "\<not> absent_or_falsy kvs k \<and> wire_field kvs k JNull = v"
    if "map_of kvs k = Some v" and "truthy v" for k v
    using that by (simp add: absent_or_falsy_def wire_field_def)
  have truthy_back: "\<exists>v. map_of kvs k = Some v \<and> truthy v \<and> wire_field kvs k JNull = v"
    if "\<not> absent_or_falsy kvs k" for k
    using that by (cases "map_of kvs k") (simp_all add: absent_or_falsy_def wire_field_def)
  have ex: "snd (execute self t service_id buyer_wallet_id input_data) =
     andThen (if absent_or_falsy kvs ''receipt'' then Inr None
              else andThen (parse_receipt (wire_field kvs ''receipt'' JNull))
                     (\<lambda>r. Inr (Some r))) (\<lambda>receipt.
     andThen (if absent_or_falsy kvs ''payment'' then Inr None
              else andThen (parse_payment (wire_field kvs ''payment'' JNull))
                     (\<lambda>p. Inr (Some p))) (\<lambda>payment.
     andThen (py_index (JObj kvs) ''paymentId'') (\<lambda>v_payment_id.
       Inr \<lparr>payment_id_result = v_payment_id,
            service_id_result = wire_field kvs ''serviceId'' (JStr service_id),
            output_result = wire_field kvs ''output'' (JObj []),
            execution_time_ms_result = wire_field kvs ''executionTimeMs'' (JInt 0),
            status_result = wire_field kvs ''status'' (JStr ''pending''),
            receipt_result = receipt, payment_result = payment\<rparr>)))"
    using assms(1) by (rule execute_reply)
  show ?thesis
    unfolding Let_def
  proof (intro conjI impI allI)
    assume "absent_or_falsy kvs ''receipt'' \<and> absent_or_falsy kvs ''payment''"
    then show "snd (execute self t service_id buyer_wallet_id input_data) =
        Inr \<lparr>payment_id_result = pid,
                 service_id_result = wire_field kvs ''serviceId'' (JStr service_id),
                 output_result = wire_field kvs ''output'' (JObj []),
                 execution_time_ms_result = wire_field kvs ''executionTimeMs'' (JInt 0),
                 status_result = wire_field kvs ''status'' (JStr ''pending''),
                 receipt_result = None, payment_result = None\<rparr>"
      using assms(2) by (simp add: ex)
  next
    assume "absent_or_falsy kvs ''receipt'' \<and>
        map_of kvs ''payment'' = Some pd \<and> truthy pd \<and> parse_payment pd = Inr p"
    then show "snd (execute self t service_id buyer_wallet_id input_data) =
        Inr (\<lparr>payment_id_result = pid,
                 service_id_result = wire_field kvs ''serviceId'' (JStr service_id),
                 output_result = wire_field kvs ''output'' (JObj []),
                 execution_time_ms_result = wire_field kvs ''executionTimeMs'' (JInt 0),
                 status_result = wire_field kvs ''status'' (JStr ''pending''),
                 receipt_result = None, payment_result = None\<rparr>\<lparr>payment_result := Some p\<rparr>)"
      using assms(2) present [of "''payment''" pd] by (simp add: ex)
  next
    assume "map_of kvs ''receipt'' = Some rd \<and> truthy rd \<and> parse_receipt rd = Inr r \<and>
        absent_or_falsy kvs ''payment''"
    then show "snd (execute self t service_id buyer_wallet_id input_data) =
        Inr (\<lparr>payment_id_result = pid,
                 service_id_result = wire_field kvs ''serviceId'' (JStr service_id),
                 output_result = wire_field kvs ''output'' (JObj []),
                 execution_time_ms_result = wire_field kvs ''executionTimeMs'' (JInt 0),
                 status_result = wire_field kvs ''status'' (JStr ''pending''),
                 receipt_result = None, payment_result = None\<rparr>\<lparr>receipt_result := Some r\<rparr>)"
      using assms(2) present [of "''receipt''" rd] by (simp add: ex)
  next
    assume "map_of kvs ''receipt'' = Some rd \<and> truthy rd \<and> parse_receipt rd = Inr r \<and>
        map_of kvs ''payment'' = Some pd \<and> truthy pd \<and> parse_payment pd = Inr p"
    then show "snd (execute self t service_id buyer_wallet_id input_data) =
        Inr (\<lparr>payment_id_result = pid,
                 service_id_result = wire_field kvs ''serviceId'' (JStr service_id),
                 output_result = wire_field kvs ''output'' (JObj []),
                 execution_time_ms_result = wire_field kvs ''executionTimeMs'' (JInt 0),
                 status_result = wire_field kvs ''status'' (JStr ''pending''),
                 receipt_result = None, payment_result = None\<rparr>
               \<lparr>receipt_result := Some r, payment_result := Some p\<rparr>)"
      using assms(2) present [of "''receipt''" rd] present [of "''payment''" pd]
      by (simp add: ex)
  next
    fix res
    assume "snd (execute self t service_id buyer_wallet_id input_data) = Inr res"
    then show "case receipt_result res of
             None \<Rightarrow> absent_or_falsy kvs ''receipt''
           | Some r' \<Rightarrow> \<exists>rd'. map_of kvs ''receipt'' = Some rd' \<and> truthy rd' \<and>
                         parse_receipt rd' = Inr r'"
      unfolding ex using truthy_back [of "''receipt''"]
      by (auto simp: andThen_eq_Inr split: if_splits)
  next
    fix res
    assume "snd (execute self t service_id buyer_wallet_id input_data) = Inr res"
    then show "case payment_result res of
             None \<Rightarrow> absent_or_falsy kvs ''payment''
           | Some p' \<Rightarrow> \<exists>pd'. map_of kvs ''payment'' = Some pd' \<and> truthy pd' \<and>
                         parse_payment pd' = Inr p'"
      unfolding ex using truthy_back [of "''payment''"]
      by (auto simp: andThen_eq_Inr split: if_splits)
  qed
qed

theorem execute_optional_receipt_and_payment_witness:
  "snd (execute (AgentPayClient ''http://localhost:3100'' None)
     (\<lambda>req. Inr (JObj [(''paymentId'', JStr ''payment_789''),
        (''serviceId'', JStr ''service_456''),
        (''output'', JObj [(''result'', JStr ''success''), (''data'', JStr ''analyzed'')]),
        (''executionTimeMs'', JInt 250), (''status'', JStr ''success'')]))
     ''service_456'' ''wallet_123'' (JObj [(''text'', JStr ''Test'')])) =
   Inr \<lparr>payment_id_result = JStr ''payment_789'', service_id_result = JStr ''service_456'',
        output_result = JObj [(''result'', JStr ''success''), (''data'', JStr ''analyzed'')],
        execution_time_ms_result = JInt 250, status_result = JStr ''success'',
        receipt_result = None, payment_result = None\<rparr> \<and>
   snd (execute (AgentPayClient ''http://localhost:3100'' None)
     (\<lambda>req. Inr (JObj [(''paymentId'', JStr ''payment_789''), (''receipt'', JObj []),
        (''payment'', JObj [(''id'', JStr ''payment_789''), (''serviceId'', JStr ''service_456''),
           (''buyerWalletId'', JStr ''wallet_123''), (''sellerWalletId'', JStr ''wallet_9''),
           (''amount'', JInt 1000), (''platformFee'', JInt 20), (''currency'', JStr ''BSV''),
           (''status'', JStr ''escrowed''), (''createdAt'', JStr ''2026-02-14T12:00:00Z'')])]))
     ''service_456'' ''wallet_123'' (JObj [(''text'', JStr ''Test'')])) =
   Inr \<lparr>payment_id_result = JStr ''payment_789'', service_id_result = JStr ''service_456'',
        output_result = JObj [], execution_time_ms_result = JInt 0,
        status_result = JStr ''pending'', receipt_result = None,
        payment_result = Some
          \<lparr>id_payment = JStr ''payment_789'', service_id_payment = JStr ''service_456'',
           buyer_wallet_id_payment = JStr ''wallet_123'',
           seller_wallet_id_payment = JStr ''wallet_9'', amount_payment = JInt 1000,
           platform_fee_payment = JInt 20, currency_payment = JStr ''BSV'',
           status_payment = JStr ''escrowed'',
           created_at_payment = JStr ''2026-02-14T12:00:00Z'',
           dispute_status_payment = JNull, tx_id_payment = JNull,
           completed_at_payment = JNull\<rparr>\<rparr> \<and>
   snd (execute (AgentPayClient ''http://localhost:3100'' None)
     (\<lambda>req. Inr (JObj [(''paymentId'', JStr ''payment_789''),
        (''receipt'', JObj [(''id'', JStr ''r1''), (''paymentId'', JStr ''payment_789''),
           (''serviceId'', JStr ''service_456''), (''inputHash'', JStr ''aa''),
           (''outputHash'', JStr ''bb''), (''timestamp'', JInt 1771070400),
           (''executionTimeMs'', JInt 250), (''providerSignature'', JStr ''s1''),
           (''platformSignature'', JStr ''s2''), (''receiptHash'', JStr ''cc'')])]))
     ''service_456'' ''wallet_123'' (JObj [(''text'', JStr ''Test'')])) =
   Inr \<lparr>payment_id_result = JStr ''payment_789'', service_id_result = JStr ''service_456'',
        output_result = JObj [], execution_time_ms_result = JInt 0,
        status_result = JStr ''pending'',
        receipt_result = Some
          \<lparr>id_receipt = JStr ''r1'', payment_id_receipt = JStr ''payment_789'',
           service_id_receipt = JStr ''service_456'', input_hash_receipt = JStr ''aa'',
           output_hash_receipt = JStr ''bb'', timestamp_receipt = JInt 1771070400,
           execution_time_ms_receipt = JInt 250, provider_signature_receipt = JStr ''s1'',
           platform_signature_receipt = JStr ''s2'', receipt_hash_receipt = JStr ''cc'',
           blockchain_tx_id_receipt = JNull, blockchain_anchored_at_receipt = JNull\<rparr>,
        payment_result = None\<rparr>"
proof -
  let ?self = "AgentPayClient ''http://localhost:3100'' None"
  let ?k1 = "[(''paymentId'', JStr ''payment_789''),
        (''serviceId'', JStr ''service_456''),
        (''output'', JObj [(''result'', JStr ''success''), (''data'', JStr ''analyzed'')]),
        (''executionTimeMs'', JInt 250), (''status'', JStr ''success'')]"
  let ?pd = "JObj [(''id'', JStr ''payment_789''), (''serviceId'', JStr ''service_456''),
           (''buyerWalletId'', JStr ''wallet_123''), (''sellerWalletId'', JStr ''wallet_9''),
           (''amount'', JInt 1000), (''platformFee'', JInt 20), (''currency'', JStr ''BSV''),
           (''status'', JStr ''escrowed''), (''createdAt'', JStr ''2026-02-14T12:00:00Z'')]"
  let ?k2 = "[(''paymentId'', JStr ''payment_789''), (''receipt'', JObj []),
              (''payment'', ?pd)]"
  let ?rd = "JObj [(''id'', JStr ''r1''), (''paymentId'', JStr ''payment_789''),
           (''serviceId'', JStr ''service_456''), (''inputHash'', JStr ''aa''),
           (''outputHash'', JStr ''bb''), (''timestamp'', JInt 1771070400),
           (''executionTimeMs'', JInt 250), (''providerSignature'', JStr ''s1''),
           (''platformSignature'', JStr ''s2''), (''receiptHash'', JStr ''cc'')]"
  let ?k3 = "[(''paymentId'', JStr ''payment_789''), (''receipt'', ?rd)]"
  let ?p = "\<lparr>id_payment = JStr ''payment_789'', service_id_payment = JStr ''service_456'',
           buyer_wallet_id_payment = JStr ''wallet_123'',
           seller_wallet_id_payment = JStr ''wallet_9'', amount_payment = JInt 1000,
           platform_fee_payment = JInt 20, currency_payment = JStr ''BSV'',
           status_payment = JStr ''escrowed'',
           created_at_payment = JStr ''2026-02-14T12:00:00Z'',
           dispute_status_payment = JNull, tx_id_payment = JNull,
           completed_at_payment = JNull\<rparr>"
  let ?r = "\<lparr>id_receipt = JStr ''r1'', payment_id_receipt = JStr ''payment_789'',
           service_id_receipt = JStr ''service_456'', input_hash_receipt = JStr ''aa'',
           output_hash_receipt = JStr ''bb'', timestamp_receipt = JInt 1771070400,
           execution_time_ms_receipt = JInt 250, provider_signature_receipt = JStr ''s1'',
           platform_signature_receipt = JStr ''s2'', receipt_hash_receipt = JStr ''cc'',
           blockchain_tx_id_receipt = JNull, blockchain_anchored_at_receipt = JNull\<rparr>"
  have pp: "parse_payment ?pd = Inr ?p" by (simp add: parse_payment_def)
  have pr: "parse_receipt ?rd = Inr ?r" by (simp add: parse_receipt_def)
  have a1: "absent_or_falsy ?k1 ''receipt'' \<and> absent_or_falsy ?k1 ''payment''"
    by (simp add: absent_or_falsy_def)
  have a2: "absent_or_falsy ?k2 ''receipt''" by (simp add: absent_or_falsy_def)
  have a3: "absent_or_falsy ?k3 ''payment''" by (simp add: absent_or_falsy_def)
  have w1: "map_of ?k1 ''paymentId'' = Some (JStr ''payment_789'')"
    and w2: "map_of ?k2 ''paymentId'' = Some (JStr ''payment_789'')"
    and w3: "map_of ?k3 ''paymentId'' = Some (JStr ''payment_789'')"
    and m2: "map_of ?k2 ''payment'' = Some ?pd" and m3: "map_of ?k3 ''receipt'' = Some ?rd"
    by simp_all
  have e1: "snd (execute ?self (\<lambda>req. Inr (JObj ?k1)) ''service_456'' ''wallet_123''
                   (JObj [(''text'', JStr ''Test'')])) =
            Inr \<lparr>payment_id_result = JStr ''payment_789'',
                 service_id_result = JStr ''service_456'',
                 output_result =
                   JObj [(''result'', JStr ''success''), (''data'', JStr ''analyzed'')],
                 execution_time_ms_result = JInt 250, status_result = JStr ''success'',
                 receipt_result = None, payment_result = None\<rparr>"
    using execute_optional_receipt_and_payment
            [where t = "\<lambda>req. Inr (JObj ?k1)" and kvs = ?k1 and self = ?self
               and service_id = "''service_456''", OF refl w1] a1
    by (simp add: Let_def wire_field_def)
  have e2: "snd (execute ?self (\<lambda>req. Inr (JObj ?k2)) ''service_456'' ''wallet_123''
                   (JObj [(''text'', JStr ''Test'')])) =
            Inr \<lparr>payment_id_result = JStr ''payment_789'',
                 service_id_result = JStr ''service_456'',
                 output_result = JObj [], execution_time_ms_result = JInt 0,
                 status_result = JStr ''pending'', receipt_result = None,
                 payment_result = Some ?p\<rparr>"
    using execute_optional_receipt_and_payment
            [where t = "\<lambda>req. Inr (JObj ?k2)" and kvs = ?k2 and self = ?self
               and service_id = "''service_456''" and pd = ?pd and p = ?p, OF refl w2]
          a2 m2 pp
    by (simp add: Let_def wire_field_def)
  have e3: "snd (execute ?self (\<lambda>req. Inr (JObj ?k3)) ''service_456'' ''wallet_123''
                   (JObj [(''text'', JStr ''Test'')])) =
            Inr \<lparr>payment_id_result = JStr ''payment_789'',
                 service_id_result = JStr ''service_456'',
                 output_result = JObj [], execution_time_ms_result = JInt 0,
                 status_result = JStr ''pending'', receipt_result = Some ?r,
                 payment_result = None\<rparr>"
    using execute_optional_receipt_and_payment
            [where t = "\<lambda>req. Inr (JObj ?k3)" and kvs = ?k3 and self = ?self
               and service_id = "''service_456''" and rd = ?rd and r = ?r, OF refl w3]
          a3 m3 pr
    by (simp add: Let_def wire_field_def)
  from e1 e2 e3 show ?thesis by (intro conjI)
qed


section \<open>Missing keys\<close>







section \<open>Defaults for missing fields\<close>

lemma execute_fields:
  assumes "t (execute_request self service_id buyer_wallet_id input_data) = Inr (JObj kvs)"
    and "snd (execute self t service_id buyer_wallet_id input_data) = Inr res"
  shows "map_of kvs ''paymentId'' = Some (payment_id_result res) \<and>
     service_id_result res = wire_field kvs ''serviceId'' (JStr service_id) \<and>
     output_result res = wire_field kvs ''output'' (JObj []) \<and>
     execution_time_ms_result res = wire_field kvs ''executionTimeMs'' (JInt 0) \<and>
     status_result res = wire_field kvs ''status'' (JStr ''pending'')"
  using assms(2) unfolding execute_reply [of t, OF assms(1)]
  by (auto simp: andThen_eq_Inr py_index_eq_Inr simp del: py_index.simps)

text \<open>
  Claim C4 fails on the code: a service object without \<open>timeout\<close> and \<open>disputeWindow\<close>
  is parsed into a record whose two fields are 30, and an \<^verbatim>\<open>execute\<close> reply that holds
  only \<open>paymentId\<close> yields a result whose service id is the argument, whose output is the
  empty object, whose execution time is 0 and whose status is \<open>pending\<close>.
\<close>

theorem other_defaults_counterexample:
  "snd (get_service (AgentPayClient ''http://localhost:3100'' None)
     (\<lambda>req. Inr (JObj [(''service'', JObj
        [(''id'', JStr ''service_456''), (''agentId'', JStr ''wallet_123''),
         (''name'', JStr ''TextAnalyzer''), (''description'', JStr ''NLP service''),
         (''category'', JStr ''nlp''), (''price'', JInt 1000), (''currency'', JStr ''BSV''),
         (''endpoint'', JStr ''https://agent.com/analyze''), (''method'', JStr ''POST''),
         (''active'', JBool True), (''createdAt'', JStr ''2026-02-14T12:00:00Z''),
         (''updatedAt'', JStr ''2026-02-14T12:00:00Z'')])])) ''service_456'') =
   Inr \<lparr>id_service = JStr ''service_456'', agent_id_service = JStr ''wallet_123'',
        name_service = JStr ''TextAnalyzer'', description_service = JStr ''NLP service'',
        category_service = JStr ''nlp'', price_service = JInt 1000,
        currency_service = JStr ''BSV'', endpoint_service = JStr ''https://agent.com/analyze'',
        method_service = JStr ''POST'', active_service = JBool True,
        timeout_service = JInt 30, dispute_window_service = JInt 30,
        created_at_service = JStr ''2026-02-14T12:00:00Z'',
        updated_at_service = JStr ''2026-02-14T12:00:00Z'',
        input_schema_service = JNull, output_schema_service = JNull\<rparr> \<and>
   snd (execute (AgentPayClient ''http://localhost:3100'' None)
     (\<lambda>req. Inr (JObj [(''paymentId'', JStr ''payment_789'')]))
     ''service_456'' ''wallet_123'' (JObj [(''text'', JStr ''Test'')])) =
   Inr \<lparr>payment_id_result = JStr ''payment_789'', service_id_result = JStr ''service_456'',
        output_result = JObj [], execution_time_ms_result = JInt 0,
        status_result = JStr ''pending'', receipt_result = None, payment_result = None\<rparr>"
  by (simp add: get_service_def parse_service_def execute_def present_and_truthy_def Let_def)

text \<open>
  Claim C4 as amended. The zero of \<^verbatim>\<open>get_balance\<close> is not the only default. A
  record built from a reply object takes every field from the key of that field, in one
  of three ways: a mandatory field is the value of its key, which must be there; an
  optional field is the value of its key, and \<^verbatim>\<open>None\<close> when the key is missing; and
  six fields have a substitute for a missing key: \<open>timeout\<close> and \<open>disputeWindow\<close> of a
  service (30 each) and, in the result of \<^verbatim>\<open>execute\<close>, \<open>serviceId\<close> (the requested
  service id), \<open>output\<close> (the empty object), \<open>executionTimeMs\<close> (0) and \<open>status\<close>
  (\<open>pending\<close>). No other field of any record gets a substitute.
\<close>

theorem record_field_sources:
  "(parse_service (JObj fs) = Inr s \<longrightarrow>
      map_of fs ''id'' = Some (id_service s) \<and>
      map_of fs ''agentId'' = Some (agent_id_service s) \<and>
      map_of fs ''name'' = Some (name_service s) \<and>
      map_of fs ''description'' = Some (description_service s) \<and>
      map_of fs ''category'' = Some (category_service s) \<and>
      map_of fs ''price'' = Some (price_service s) \<and>
      map_of fs ''currency'' = Some (currency_service s) \<and>
      map_of fs ''endpoint'' = Some (endpoint_service s) \<and>
      map_of fs ''method'' = Some (method_service s) \<and>
      map_of fs ''active'' = Some (active_service s) \<and>
      timeout_service s = wire_field fs ''timeout'' (JInt 30) \<and>
      dispute_window_service s = wire_field fs ''disputeWindow'' (JInt 30) \<and>
      map_of fs ''createdAt'' = Some (created_at_service s) \<and>
      map_of fs ''updatedAt'' = Some (updated_at_service s) \<and>
      input_schema_service s = wire_field fs ''inputSchema'' JNull \<and>
      output_schema_service s = wire_field fs ''outputSchema'' JNull) \<and>
   (parse_payment (JObj fs) = Inr p \<longrightarrow>
      map_of fs ''id'' = Some (id_payment p) \<and>
      map_of fs ''serviceId'' = Some (service_id_payment p) \<and>
      map_of fs ''buyerWalletId'' = Some (buyer_wallet_id_payment p) \<and>
      map_of fs ''sellerWalletId'' = Some (seller_wallet_id_payment p) \<and>
      map_of fs ''amount'' = Some (amount_payment p) \<and>
      map_of fs ''platformFee'' = Some (platform_fee_payment p) \<and>
      map_of fs ''currency'' = Some (currency_payment p) \<and>
      map_of fs ''status'' = Some (status_payment p) \<and>
      map_of fs ''createdAt'' = Some (created_at_payment p) \<and>
      dispute_status_payment p = wire_field fs ''disputeStatus'' JNull \<and>
      tx_id_payment p = wire_field fs ''txId'' JNull \<and>
      completed_at_payment p = wire_field fs ''completedAt'' JNull) \<and>
   (parse_receipt (JObj fs) = Inr r \<longrightarrow>
      map_of fs ''id'' = Some (id_receipt r) \<and>
      map_of fs ''paymentId'' = Some (payment_id_receipt r) \<and>
      map_of fs ''serviceId'' = Some (service_id_receipt r) \<and>
      map_of fs ''inputHash'' = Some (input_hash_receipt r) \<and>
      map_of fs ''outputHash'' = Some (output_hash_receipt r) \<and>
      map_of fs ''timestamp'' = Some (timestamp_receipt r) \<and>
      map_of fs ''executionTimeMs'' = Some (execution_time_ms_receipt r) \<and>
      map_of fs ''providerSignature'' = Some (provider_signature_receipt r) \<and>
      map_of fs ''platformSignature'' = Some (platform_signature_receipt r) \<and>
      map_of fs ''receiptHash'' = Some (receipt_hash_receipt r) \<and>
      blockchain_tx_id_receipt r = wire_field fs ''blockchainTxId'' JNull \<and>
      blockchain_anchored_at_receipt r = wire_field fs ''blockchainAnchoredAt'' JNull) \<and>
   (parse_dispute (JObj fs) = Inr d \<longrightarrow>
      map_of fs ''id'' = Some (id_dispute d) \<and>
      map_of fs ''paymentId'' = Some (payment_id_dispute d) \<and>
      map_of fs ''buyerWalletId'' = Some (buyer_wallet_id_dispute d) \<and>
      map_of fs ''providerWalletId'' = Some (provider_wallet_id_dispute d) \<and>
      map_of fs ''reason'' = Some (reason_dispute d) \<and>
      map_of fs ''status'' = Some (status_dispute d) \<and>
      map_of fs ''createdAt'' = Some (created_at_dispute d) \<and>
      evidence_dispute d = wire_field fs ''evidence'' JNull \<and>
      resolution_dispute d = wire_field fs ''resolution'' JNull \<and>
      split_percent_dispute d = wire_field fs ''splitPercent'' JNull \<and>
      resolved_at_dispute d = wire_field fs ''resolvedAt'' JNull) \<and>
   (parse_webhook (JObj fs) = Inr h \<longrightarrow>
      map_of fs ''id'' = Some (id_webhook h) \<and>
      map_of fs ''url'' = Some (url_webhook h) \<and>
      map_of fs ''events'' = Some (events_webhook h) \<and>
      map_of fs ''active'' = Some (active_webhook h) \<and>
      map_of fs ''createdAt'' = Some (created_at_webhook h) \<and>
      secret_webhook h = wire_field fs ''secret'' JNull) \<and>
   (t (create_wallet_request self) = Inr (JObj kvs) \<and>
    map_of kvs ''wallet'' = Some (JObj fs) \<and> snd (create_wallet self t) = Inr w \<longrightarrow>
      map_of fs ''id'' = Some (id_wallet w) \<and>
      map_of fs ''publicKey'' = Some (public_key_wallet w) \<and>
      map_of fs ''address'' = Some (address_wallet w) \<and>
      map_of fs ''createdAt'' = Some (created_at_wallet w) \<and>
      balance_wallet w = wire_field fs ''balance'' JNull \<and>
      balance_mnee_wallet w = wire_field fs ''balanceMnee'' JNull) \<and>
   (t (get_wallet_request self wallet_id) = Inr (JObj kvs) \<and>
    map_of kvs ''wallet'' = Some (JObj fs) \<and> snd (get_wallet self t wallet_id) = Inr w \<longrightarrow>
      map_of fs ''id'' = Some (id_wallet w) \<and>
      map_of fs ''publicKey'' = Some (public_key_wallet w) \<and>
      map_of fs ''address'' = Some (address_wallet w) \<and>
      map_of fs ''createdAt'' = Some (created_at_wallet w) \<and>
      balance_wallet w = wire_field fs ''balance'' JNull \<and>
      balance_mnee_wallet w = wire_field fs ''balanceMnee'' JNull) \<and>
   (t (get_reputation_request self agent) = Inr (JObj kvs) \<and>
    map_of kvs ''reputation'' = Some (JObj fs) \<and>
    snd (get_reputation self t agent) = Inr rep \<longrightarrow>
      map_of fs ''agentId'' = Some (agent_id_reputation rep) \<and>
      map_of fs ''totalJobs'' = Some (total_jobs_reputation rep) \<and>
      map_of fs ''successRate'' = Some (success_rate_reputation rep) \<and>
      map_of fs ''avgResponseTimeMs'' = Some (avg_response_time_ms_reputation rep) \<and>
      map_of fs ''totalEarned'' = Some (total_earned_reputation rep) \<and>
      map_of fs ''totalSpent'' = Some (total_spent_reputation rep) \<and>
      map_of fs ''rating'' = Some (rating_reputation rep)) \<and>
   (t (execute_request self service_id buyer_wallet_id input_data) = Inr (JObj kvs) \<and>
    snd (execute self t service_id buyer_wallet_id input_data) = Inr res \<longrightarrow>
      map_of kvs ''paymentId'' = Some (payment_id_result res) \<and>
      service_id_result res = wire_field kvs ''serviceId'' (JStr service_id) \<and>
      output_result res = wire_field kvs ''output'' (JObj []) \<and>
      execution_time_ms_result res = wire_field kvs ''executionTimeMs'' (JInt 0) \<and>
      status_result res = wire_field kvs ''status'' (JStr ''pending''))"
proof -
  have 1: "parse_service (JObj fs) = Inr s \<longrightarrow>
      map_of fs ''id'' = Some (id_service s) \<and>
      map_of fs ''agentId'' = Some (agent_id_service s) \<and>
      map_of fs ''name'' = Some (name_service s) \<and>
      map_of fs ''description'' = Some (description_service s) \<and>
      map_of fs ''category'' = Some (category_service s) \<and>
      map_of fs ''price'' = Some (price_service s) \<and>
      map_of fs ''currency'' = Some (currency_service s) \<and>
      map_of fs ''endpoint'' = Some (endpoint_service s) \<and>
      map_of fs ''method'' = Some (method_service s) \<and>
      map_of fs ''active'' = Some (active_service s) \<and>
      timeout_service s = wire_field fs ''timeout'' (JInt 30) \<and>
      dispute_window_service s = wire_field fs ''disputeWindow'' (JInt 30) \<and>
      map_of fs ''createdAt'' = Some (created_at_service s) \<and>
      map_of fs ''updatedAt'' = Some (updated_at_service s) \<and>
      input_schema_service s = wire_field fs ''inputSchema'' JNull \<and>
      output_schema_service s = wire_field fs ''outputSchema'' JNull"
    by (rule impI) (rule parse_service_fields)
  have 2: "parse_payment (JObj fs) = Inr p \<longrightarrow>
      map_of fs ''id'' = Some (id_payment p) \<and>
      map_of fs ''serviceId'' = Some (service_id_payment p) \<and>
      map_of fs ''buyerWalletId'' = Some (buyer_wallet_id_payment p) \<and>
      map_of fs ''sellerWalletId'' = Some (seller_wallet_id_payment p) \<and>
      map_of fs ''amount'' = Some (amount_payment p) \<and>
      map_of fs ''platformFee'' = Some (platform_fee_payment p) \<and>
      map_of fs ''currency'' = Some (currency_payment p) \<and>
      map_of fs ''status'' = Some (status_payment p) \<and>
      map_of fs ''createdAt'' = Some (created_at_payment p) \<and>
      dispute_status_payment p = wire_field fs ''disputeStatus'' JNull \<and>
      tx_id_payment p = wire_field fs ''txId'' JNull \<and>
      completed_at_payment p = wire_field fs ''completedAt'' JNull"
    by (rule impI) (rule parse_payment_fields)
  have 3: "parse_receipt (JObj fs) = Inr r \<longrightarrow>
      map_of fs ''id'' = Some (id_receipt r) \<and>
      map_of fs ''paymentId'' = Some (payment_id_receipt r) \<and>
      map_of fs ''serviceId'' = Some (service_id_receipt r) \<and>
      map_of fs ''inputHash'' = Some (input_hash_receipt r) \<and>
      map_of fs ''outputHash'' = Some (output_hash_receipt r) \<and>
      map_of fs ''timestamp'' = Some (timestamp_receipt r) \<and>
      map_of fs ''executionTimeMs'' = Some (execution_time_ms_receipt r) \<and>
      map_of fs ''providerSignature'' = Some (provider_signature_receipt r) \<and>
      map_of fs ''platformSignature'' = Some (platform_signature_receipt r) \<and>
      map_of fs ''receiptHash'' = Some (receipt_hash_receipt r) \<and>
      blockchain_tx_id_receipt r = wire_field fs ''blockchainTxId'' JNull \<and>
      blockchain_anchored_at_receipt r = wire_field fs ''blockchainAnchoredAt'' JNull"
    by (rule impI) (rule parse_receipt_fields)
  have 4: "parse_dispute (JObj fs) = Inr d \<longrightarrow>
      map_of fs ''id'' = Some (id_dispute d) \<and>
      map_of fs ''paymentId'' = Some (payment_id_dispute d) \<and>
      map_of fs ''buyerWalletId'' = Some (buyer_wallet_id_dispute d) \<and>
      map_of fs ''providerWalletId'' = Some (provider_wallet_id_dispute d) \<and>
      map_of fs ''reason'' = Some (reason_dispute d) \<and>
      map_of fs ''status'' = Some (status_dispute d) \<and>
      map_of fs ''createdAt'' = Some (created_at_dispute d) \<and>
      evidence_dispute d = wire_field fs ''evidence'' JNull \<and>
      resolution_dispute d = wire_field fs ''resolution'' JNull \<and>
      split_percent_dispute d = wire_field fs ''splitPercent'' JNull \<and>
      resolved_at_dispute d = wire_field fs ''resolvedAt'' JNull"
    by (rule impI) (rule parse_dispute_fields)
  have 5: "parse_webhook (JObj fs) = Inr h \<longrightarrow>
      map_of fs ''id'' = Some (id_webhook h) \<and>
      map_of fs ''url'' = Some (url_webhook h) \<and>
      map_of fs ''events'' = Some (events_webhook h) \<and>
      map_of fs ''active'' = Some (active_webhook h) \<and>
      map_of fs ''createdAt'' = Some (created_at_webhook h) \<and>
      secret_webhook h = wire_field fs ''secret'' JNull"
    by (rule impI) (rule parse_webhook_fields)
  have 6: "t (create_wallet_request self) = Inr (JObj kvs) \<and>
    map_of kvs ''wallet'' = Some (JObj fs) \<and> snd (create_wallet self t) = Inr w \<longrightarrow>
      map_of fs ''id'' = Some (id_wallet w) \<and>
      map_of fs ''publicKey'' = Some (public_key_wallet w) \<and>
      map_of fs ''address'' = Some (address_wallet w) \<and>
      map_of fs ''createdAt'' = Some (created_at_wallet w) \<and>
      balance_wallet w = wire_field fs ''balance'' JNull \<and>
      balance_mnee_wallet w = wire_field fs ''balanceMnee'' JNull"
    by (intro impI, elim conjE) (rule create_wallet_fields)
  have 7: "t (get_wallet_request self wallet_id) = Inr (JObj kvs) \<and>
    map_of kvs ''wallet'' = Some (JObj fs) \<and> snd (get_wallet self t wallet_id) = Inr w \<longrightarrow>
      map_of fs ''id'' = Some (id_wallet w) \<and>
      map_of fs ''publicKey'' = Some (public_key_wallet w) \<and>
      map_of fs ''address'' = Some (address_wallet w) \<and>
      map_of fs ''createdAt'' = Some (created_at_wallet w) \<and>
      balance_wallet w = wire_field fs ''balance'' JNull \<and>
      balance_mnee_wallet w = wire_field fs ''balanceMnee'' JNull"
    by (intro impI, elim conjE) (rule get_wallet_fields)
  have 8: "t (get_reputation_request self agent) = Inr (JObj kvs) \<and>
    map_of kvs ''reputation'' = Some (JObj fs) \<and>
    snd (get_reputation self t agent) = Inr rep \<longrightarrow>
      map_of fs ''agentId'' = Some (agent_id_reputation rep) \<and>
      map_of fs ''totalJobs'' = Some (total_jobs_reputation rep) \<and>
      map_of fs ''successRate'' = Some (success_rate_reputation rep) \<and>
      map_of fs ''avgResponseTimeMs'' = Some (avg_response_time_ms_reputation rep) \<and>
      map_of fs ''totalEarned'' = Some (total_earned_reputation rep) \<and>
      map_of fs ''totalSpent'' = Some (total_spent_reputation rep) \<and>
      map_of fs ''rating'' = Some (rating_reputation rep)"
    by (intro impI, elim conjE) (rule get_reputation_fields)
  have 9: "t (execute_request self service_id buyer_wallet_id input_data) = Inr (JObj kvs) \<and>
    snd (execute self t service_id buyer_wallet_id input_data) = Inr res \<longrightarrow>
      map_of kvs ''paymentId'' = Some (payment_id_result res) \<and>
      service_id_result res = wire_field kvs ''serviceId'' (JStr service_id) \<and>
      output_result res = wire_field kvs ''output'' (JObj []) \<and>
      execution_time_ms_result res = wire_field kvs ''executionTimeMs'' (JInt 0) \<and>
      status_result res = wire_field kvs ''status'' (JStr ''pending'')"
    by (intro impI, elim conjE) (rule execute_fields)
  from 1 2 3 4 5 6 7 8 9 show ?thesis by (intro conjI)
qed

theorem record_field_sources_witness:
  "timeout_service (projr (parse_service (JObj
      [(''id'', JStr ''service_456''), (''agentId'', JStr ''wallet_123''),
       (''name'', JStr ''TextAnalyzer''), (''description'', JStr ''NLP service''),
       (''category'', JStr ''nlp''), (''price'', JInt 1000), (''currency'', JStr ''BSV''),
       (''endpoint'', JStr ''https://agent.com/analyze''), (''method'', JStr ''POST''),
       (''active'', JBool True), (''createdAt'', JStr ''2026-02-14T12:00:00Z''),
       (''updatedAt'', JStr ''2026-02-14T12:00:00Z'')]))) = JInt 30 \<and>
   tx_id_payment (projr (parse_payment (JObj
      [(''id'', JStr ''payment_789''), (''serviceId'', JStr ''service_456''),
       (''buyerWalletId'', JStr ''wallet_123''), (''sellerWalletId'', JStr ''wallet_9''),
       (''amount'', JInt 1000), (''platformFee'', JInt 20), (''currency'', JStr ''BSV''),
       (''status'', JStr ''escrowed''), (''createdAt'', JStr ''2026-02-14T12:00:00Z'')]))) =
     JNull \<and>
   blockchain_tx_id_receipt (projr (parse_receipt (JObj
      [(''id'', JStr ''r1''), (''paymentId'', JStr ''payment_789''),
       (''serviceId'', JStr ''service_456''), (''inputHash'', JStr ''aa''),
       (''outputHash'', JStr ''bb''), (''timestamp'', JInt 1771070400),
       (''executionTimeMs'', JInt 250), (''providerSignature'', JStr ''s1''),
       (''platformSignature'', JStr ''s2''), (''receiptHash'', JStr ''cc'')]))) = JNull \<and>
   evidence_dispute (projr (parse_dispute (JObj
      [(''id'', JStr ''d1''), (''paymentId'', JStr ''p1''),
       (''buyerWalletId'', JStr ''w1''), (''providerWalletId'', JStr ''w2''),
       (''reason'', JStr ''no output''), (''status'', JStr ''open''),
       (''createdAt'', JStr ''2026-02-14T12:00:00Z'')]))) = JNull \<and>
   secret_webhook (projr (parse_webhook (JObj
      [(''id'', JStr ''h1''), (''url'', JStr ''https://a.example/hook''),
       (''events'', JList [JStr ''payment.completed'']), (''active'', JBool True),
       (''createdAt'', JStr ''2026-02-14T12:00:00Z'')]))) = JNull \<and>
   balance_mnee_wallet (projr (snd (create_wallet (AgentPayClient ''http://localhost:3100'' None)
      (\<lambda>req. Inr (JObj [(''wallet'', JObj
         [(''id'', JStr ''wallet_123''), (''publicKey'', JStr ''pub_key_abc''),
          (''address'', JStr ''1A1''), (''createdAt'', JStr ''2026-02-14T12:00:00Z''),
          (''balance'', JInt 50000)]),
        (''reputation'', JObj
         [(''agentId'', JStr ''wallet_123''), (''totalJobs'', JInt 12),
          (''successRate'', JInt 1), (''avgResponseTimeMs'', JInt 250),
          (''totalEarned'', JInt 12000), (''totalSpent'', JInt 0), (''rating'', JInt 5)]),
        (''paymentId'', JStr ''payment_789'')]))))) = JNull \<and>
   balance_wallet (projr (snd (get_wallet (AgentPayClient ''http://localhost:3100'' None)
      (\<lambda>req. Inr (JObj [(''wallet'', JObj
         [(''id'', JStr ''wallet_123''), (''publicKey'', JStr ''pub_key_abc''),
          (''address'', JStr ''1A1''), (''createdAt'', JStr ''2026-02-14T12:00:00Z''),
          (''balance'', JInt 50000)]),
        (''reputation'', JObj
         [(''agentId'', JStr ''wallet_123''), (''totalJobs'', JInt 12),
          (''successRate'', JInt 1), (''avgResponseTimeMs'', JInt 250),
          (''totalEarned'', JInt 12000), (''totalSpent'', JInt 0), (''rating'', JInt 5)]),
        (''paymentId'', JStr ''payment_789'')])) ''wallet_123''))) = JInt 50000 \<and>
   map_of [(''agentId'', JStr ''wallet_123''), (''totalJobs'', JInt 12),
          (''successRate'', JInt 1), (''avgResponseTimeMs'', JInt 250),
          (''totalEarned'', JInt 12000), (''totalSpent'', JInt 0), (''rating'', JInt 5)]
     ''rating'' =
   Some (rating_reputation (projr (snd (get_reputation
      (AgentPayClient ''http://localhost:3100'' None)
      (\<lambda>req. Inr (JObj [(''wallet'', JObj
         [(''id'', JStr ''wallet_123''), (''publicKey'', JStr ''pub_key_abc''),
          (''address'', JStr ''1A1''), (''createdAt'', JStr ''2026-02-14T12:00:00Z''),
          (''balance'', JInt 50000)]),
        (''reputation'', JObj
         [(''agentId'', JStr ''wallet_123''), (''totalJobs'', JInt 12),
          (''successRate'', JInt 1), (''avgResponseTimeMs'', JInt 250),
          (''totalEarned'', JInt 12000), (''totalSpent'', JInt 0), (''rating'', JInt 5)]),
        (''paymentId'', JStr ''payment_789'')])) ''wallet_123'')))) \<and>
   status_result (projr (snd (execute (AgentPayClient ''http://localhost:3100'' None)
      (\<lambda>req. Inr (JObj [(''wallet'', JObj
         [(''id'', JStr ''wallet_123''), (''publicKey'', JStr ''pub_key_abc''),
          (''address'', JStr ''1A1''), (''createdAt'', JStr ''2026-02-14T12:00:00Z''),
          (''balance'', JInt 50000)]),
        (''reputation'', JObj
         [(''agentId'', JStr ''wallet_123''), (''totalJobs'', JInt 12),
          (''successRate'', JInt 1), (''avgResponseTimeMs'', JInt 250),
          (''totalEarned'', JInt 12000), (''totalSpent'', JInt 0), (''rating'', JInt 5)]),
        (''paymentId'', JStr ''payment_789'')]))
      ''service_456'' ''wallet_123'' (JObj [(''text'', JStr ''Test'')])))) = JStr ''pending''"
proof -
  let ?self = "AgentPayClient ''http://localhost:3100'' None"
  let ?fsS = "[(''id'', JStr ''service_456''), (''agentId'', JStr ''wallet_123''),
       (''name'', JStr ''TextAnalyzer''), (''description'', JStr ''NLP service''),
       (''category'', JStr ''nlp''), (''price'', JInt 1000), (''currency'', JStr ''BSV''),
       (''endpoint'', JStr ''https://agent.com/analyze''), (''method'', JStr ''POST''),
       (''active'', JBool True), (''createdAt'', JStr ''2026-02-14T12:00:00Z''),
       (''updatedAt'', JStr ''2026-02-14T12:00:00Z'')]"
  let ?fsP = "[(''id'', JStr ''payment_789''), (''serviceId'', JStr ''service_456''),
       (''buyerWalletId'', JStr ''wallet_123''), (''sellerWalletId'', JStr ''wallet_9''),
       (''amount'', JInt 1000), (''platformFee'', JInt 20), (''currency'', JStr ''BSV''),
       (''status'', JStr ''escrowed''), (''createdAt'', JStr ''2026-02-14T12:00:00Z'')]"
  let ?fsR = "[(''id'', JStr ''r1''), (''paymentId'', JStr ''payment_789''),
       (''serviceId'', JStr ''service_456''), (''inputHash'', JStr ''aa''),
       (''outputHash'', JStr ''bb''), (''timestamp'', JInt 1771070400),
       (''executionTimeMs'', JInt 250), (''providerSignature'', JStr ''s1''),
       (''platformSignature'', JStr ''s2''), (''receiptHash'', JStr ''cc'')]"
  let ?fsD = "[(''id'', JStr ''d1''), (''paymentId'', JStr ''p1''),
       (''buyerWalletId'', JStr ''w1''), (''providerWalletId'', JStr ''w2''),
       (''reason'', JStr ''no output''), (''status'', JStr ''open''),
       (''createdAt'', JStr ''2026-02-14T12:00:00Z'')]"
  let ?fsH = "[(''id'', JStr ''h1''), (''url'', JStr ''https://a.example/hook''),
       (''events'', JList [JStr ''payment.completed'']), (''active'', JBool True),
       (''createdAt'', JStr ''2026-02-14T12:00:00Z'')]"
  let ?fsW = "[(''id'', JStr ''wallet_123''), (''publicKey'', JStr ''pub_key_abc''),
          (''address'', JStr ''1A1''), (''createdAt'', JStr ''2026-02-14T12:00:00Z''),
          (''balance'', JInt 50000)]"
  let ?fsRep = "[(''agentId'', JStr ''wallet_123''), (''totalJobs'', JInt 12),
          (''successRate'', JInt 1), (''avgResponseTimeMs'', JInt 250),
          (''totalEarned'', JInt 12000), (''totalSpent'', JInt 0), (''rating'', JInt 5)]"
  let ?kvs = "[(''wallet'', JObj ?fsW), (''reputation'', JObj ?fsRep),
              (''paymentId'', JStr ''payment_789'')]"
  let ?t = "\<lambda>req::request. (Inr (JObj ?kvs) :: json result)"
  let ?input = "JObj [(''text'', JStr ''Test'')]"
  have hS: "parse_service (JObj ?fsS) = Inr (projr (parse_service (JObj ?fsS)))"
    by (simp add: parse_service_def)
  have hP: "parse_payment (JObj ?fsP) = Inr (projr (parse_payment (JObj ?fsP)))"
    by (simp add: parse_payment_def)
  have hR: "parse_receipt (JObj ?fsR) = Inr (projr (parse_receipt (JObj ?fsR)))"
    by (simp add: parse_receipt_def)
  have hD: "parse_dispute (JObj ?fsD) = Inr (projr (parse_dispute (JObj ?fsD)))"
    by (simp add: parse_dispute_def)
  have hH: "parse_webhook (JObj ?fsH) = Inr (projr (parse_webhook (JObj ?fsH)))"
    by (simp add: parse_webhook_def)
  have hC: "snd (create_wallet ?self ?t) = Inr (projr (snd (create_wallet ?self ?t)))"
    by (simp add: create_wallet_def Let_def)
  have hG: "snd (get_wallet ?self ?t ''wallet_123'') =
            Inr (projr (snd (get_wallet ?self ?t ''wallet_123'')))"
    by (simp add: get_wallet_def Let_def)
  have hRep: "snd (get_reputation ?self ?t ''wallet_123'') =
              Inr (projr (snd (get_reputation ?self ?t ''wallet_123'')))"
    by (simp add: get_reputation_def Let_def)
  have hE: "snd (execute ?self ?t ''service_456'' ''wallet_123'' ?input) =
            Inr (projr (snd (execute ?self ?t ''service_456'' ''wallet_123'' ?input)))"
    by (simp add: execute_def present_and_truthy_def Let_def)
  have mW: "map_of ?kvs ''wallet'' = Some (JObj ?fsW)"
    and mRep: "map_of ?kvs ''reputation'' = Some (JObj ?fsRep)"
    by simp_all
  note c1 = record_field_sources
      [where fs = ?fsS and s = "projr (parse_service (JObj ?fsS))", THEN conjunct1]
  note c2 = record_field_sources
      [where fs = ?fsP and p = "projr (parse_payment (JObj ?fsP))",
       THEN conjunct2, THEN conjunct1]
  note c3 = record_field_sources
      [where fs = ?fsR and r = "projr (parse_receipt (JObj ?fsR))",
       THEN conjunct2, THEN conjunct2, THEN conjunct1]
  note c4 = record_field_sources
      [where fs = ?fsD and d = "projr (parse_dispute (JObj ?fsD))",
       THEN conjunct2, THEN conjunct2, THEN conjunct2, THEN conjunct1]
  note c5 = record_field_sources
      [where fs = ?fsH and h = "projr (parse_webhook (JObj ?fsH))",
       THEN conjunct2, THEN conjunct2, THEN conjunct2, THEN conjunct2, THEN conjunct1]
  note c6 = record_field_sources
      [where fs = ?fsW and kvs = ?kvs and t = ?t and self = ?self
         and w = "projr (snd (create_wallet ?self ?t))",
       THEN conjunct2, THEN conjunct2, THEN conjunct2, THEN conjunct2, THEN conjunct2,
       THEN conjunct1]
  note c7 = record_field_sources
      [where fs = ?fsW and kvs = ?kvs and t = ?t and self = ?self
         and wallet_id = "''wallet_123''"
         and w = "projr (snd (get_wallet ?self ?t ''wallet_123''))",
       THEN conjunct2, THEN conjunct2, THEN conjunct2, THEN conjunct2, THEN conjunct2,
       THEN conjunct2, THEN conjunct1]
  note c8 = record_field_sources
      [where fs = ?fsRep and kvs = ?kvs and t = ?t and self = ?self
         and agent = "''wallet_123''"
         and rep = "projr (snd (get_reputation ?self ?t ''wallet_123''))",
       THEN conjunct2, THEN conjunct2, THEN conjunct2, THEN conjunct2, THEN conjunct2,
       THEN conjunct2, THEN conjunct2, THEN conjunct1]
  note c9 = record_field_sources
      [where kvs = ?kvs and t = ?t and self = ?self and service_id = "''service_456''"
         and buyer_wallet_id = "''wallet_123''" and input_data = ?input
         and res = "projr (snd (execute ?self ?t ''service_456'' ''wallet_123'' ?input))",
       THEN conjunct2, THEN conjunct2, THEN conjunct2, THEN conjunct2, THEN conjunct2,
       THEN conjunct2, THEN conjunct2, THEN conjunct2]
  have r1: "timeout_service (projr (parse_service (JObj ?fsS))) = JInt 30"
    using c1 hS by (simp add: wire_field_def)
  have r2: "tx_id_payment (projr (parse_payment (JObj ?fsP))) = JNull"
    using c2 hP by (simp add: wire_field_def)
  have r3: "blockchain_tx_id_receipt (projr (parse_receipt (JObj ?fsR))) = JNull"
    using c3 hR by (simp add: wire_field_def)
  have r4: "evidence_dispute (projr (parse_dispute (JObj ?fsD))) = JNull"
    using c4 hD by (simp add: wire_field_def)
  have r5: "secret_webhook (projr (parse_webhook (JObj ?fsH))) = JNull"
    using c5 hH by (simp add: wire_field_def)
  have r6: "balance_mnee_wallet (projr (snd (create_wallet ?self ?t))) = JNull"
    using c6 hC mW by (simp add: wire_field_def)
  have r7: "balance_wallet (projr (snd (get_wallet ?self ?t ''wallet_123''))) = JInt 50000"
    using c7 hG mW by (simp add: wire_field_def)
  have r8: "map_of ?fsRep ''rating'' =
            Some (rating_reputation (projr (snd (get_reputation ?self ?t ''wallet_123''))))"
    using c8 hRep mRep by blast
  have r9: "status_result (projr (snd (execute ?self ?t ''service_456'' ''wallet_123'' ?input))) =
            JStr ''pending''"
    using c9 hE by (simp add: wire_field_def)
  from r1 r2 r3 r4 r5 r6 r7 r8 r9 show ?thesis by (intro conjI)
qed

end
